theory Spec2Isabelle
  imports Complex_Main "HOL-Library.Sublist"
begin

section \<open>The data fetcher \<^verbatim>\<open>scripts/fetch_data.py\<close>\<close>

text \<open>
  The script resolves one prediction-market event over HTTP, asks a second service for the
  price history of the first outcome token of each market, and writes \<^verbatim>\<open>event.json\<close>, one
  \<^verbatim>\<open>history_<id>.json\<close> per market with a history, and \<^verbatim>\<open>summary.json\<close>.

  Everything the script reads from the outside world is a field of an environment record;
  everything it does to the outside world (HTTP requests, printed lines, files written) is
  an entry of an effect trace, in the order in which the script performs it. An uncaught
  Python exception is the \<open>Inl\<close> branch of a function's result, and the trace produced up to
  the raise is kept.
\<close>

subsection \<open>JSON values as Python sees them\<close>

text \<open>
  \<^verbatim>\<open>response.json()\<close> and \<^verbatim>\<open>json.loads\<close> produce \<^verbatim>\<open>None\<close>, \<^verbatim>\<open>bool\<close>, \<^verbatim>\<open>int\<close>, \<^verbatim>\<open>float\<close>, \<^verbatim>\<open>str\<close>,
  \<^verbatim>\<open>list\<close> and \<^verbatim>\<open>dict\<close> values. A \<open>JObj\<close> is an association list in insertion order whose
  keys are pairwise distinct, as the keys of a Python \<^verbatim>\<open>dict\<close> are. A float is carried by
  its exact rational value; the script only ever tests one for being zero.
\<close>

datatype json =
    JNull
  | JBool bool
  | JInt int
  | JFloat rat
  | JStr string
  | JArr "json list"
  | JObj "(string \<times> json) list"

datatype py_error =
    RequestException
  | JSONDecodeError
  | AttributeError
  | TypeError
  | KeyError
  | IndexError
  | FileNotFoundError
  | ValueError
  | OSError

text \<open>Python truthiness: what \<^verbatim>\<open>not x\<close> and \<^verbatim>\<open>x and ...\<close> test.\<close>

fun truthy :: "json \<Rightarrow> bool" where
  "truthy JNull = False"
| "truthy (JBool b) = b"
| "truthy (JInt i) = (i \<noteq> 0)"
| "truthy (JFloat r) = (r \<noteq> 0)"
| "truthy (JStr s) = (s \<noteq> [])"
| "truthy (JArr xs) = (xs \<noteq> [])"
| "truthy (JObj kvs) = (kvs \<noteq> [])"

text \<open>\<^verbatim>\<open>x.get(key, default)\<close>: only a dict has the method.\<close>

fun py_get :: "json \<Rightarrow> string \<Rightarrow> json \<Rightarrow> py_error + json" where
  "py_get (JObj kvs) k d = Inr (case map_of kvs k of None \<Rightarrow> d | Some v \<Rightarrow> v)"
| "py_get _ k d = Inl AttributeError"

text \<open>\<^verbatim>\<open>x[key]\<close> with a string key.\<close>

fun py_item :: "json \<Rightarrow> string \<Rightarrow> py_error + json" where
  "py_item (JObj kvs) k = (case map_of kvs k of None \<Rightarrow> Inl KeyError | Some v \<Rightarrow> Inr v)"
| "py_item _ k = Inl TypeError"

text \<open>
  \<^verbatim>\<open>x[0]\<close>: the first element of a list, the first character of a string, an
  \<^verbatim>\<open>IndexError\<close> where there is none, a \<^verbatim>\<open>KeyError\<close> on a dict (its keys are strings), a
  \<^verbatim>\<open>TypeError\<close> on \<^verbatim>\<open>None\<close>, a number or a boolean.
\<close>

fun py_first :: "json \<Rightarrow> py_error + json" where
  "py_first (JArr []) = Inl IndexError"
| "py_first (JArr (x # xs)) = Inr x"
| "py_first (JStr []) = Inl IndexError"
| "py_first (JStr (c # cs)) = Inr (JStr [c])"
| "py_first (JObj kvs) = Inl KeyError"
| "py_first _ = Inl TypeError"

text \<open>\<^verbatim>\<open>len(x)\<close>.\<close>

fun py_len :: "json \<Rightarrow> py_error + nat" where
  "py_len (JArr xs) = Inr (length xs)"
| "py_len (JStr s) = Inr (length s)"
| "py_len (JObj kvs) = Inr (length kvs)"
| "py_len _ = Inl TypeError"

text \<open>\<^verbatim>\<open>for x in xs\<close>: the elements of a list, the keys of a dict, the characters of a string.\<close>

fun py_iter :: "json \<Rightarrow> py_error + json list" where
  "py_iter (JArr xs) = Inr xs"
| "py_iter (JStr s) = Inr (map (\<lambda>c. JStr [c]) s)"
| "py_iter (JObj kvs) = Inr (map (\<lambda>kv. JStr (fst kv)) kvs)"
| "py_iter _ = Inl TypeError"

text \<open>\<^verbatim>\<open>sub in s\<close> on two strings: \<open>sub\<close> occurs in \<open>s\<close> as a contiguous block.\<close>

fun str_contains :: "string \<Rightarrow> string \<Rightarrow> bool" where
  "str_contains [] sub = (sub = [])"
| "str_contains (c # cs) sub = (take (length sub) (c # cs) = sub \<or> str_contains cs sub)"

text \<open>\<^verbatim>\<open>key in x\<close> with a string key.\<close>

fun py_in :: "string \<Rightarrow> json \<Rightarrow> py_error + bool" where
  "py_in k (JObj kvs) = Inr (map_of kvs k \<noteq> None)"
| "py_in k (JArr xs) = Inr (JStr k \<in> set xs)"
| "py_in k (JStr s) = Inr (str_contains s k)"
| "py_in k _ = Inl TypeError"

text \<open>\<^verbatim>\<open>int(x)\<close> on a float: truncation towards zero.\<close>

definition py_int :: "rat \<Rightarrow> int" where
  "py_int r = (if 0 \<le> r then \<lfloor>r\<rfloor> else \<lceil>r\<rceil>)"

subsection \<open>The outside world\<close>

text \<open>
  What \<^verbatim>\<open>requests.get\<close> does: it raises, or it gives a response with a status code whose
  body \<^verbatim>\<open>response.json()\<close> decodes (\<open>Some\<close>) or rejects by raising (\<open>None\<close>).
\<close>

datatype http_result =
    Transport_Failure
  | Response int "json option"

text \<open>
  The environment of one run. \<open>gamma_api\<close> answers the request for a URL of the metadata
  service; \<open>clob_api k\<close> answers the \<open>k\<close>-th request to the time-series service (counted from
  0) for its parameters; \<open>clock k\<close> is the \<open>k\<close>-th reading of \<^verbatim>\<open>time.time()\<close>. The standard
  library's \<^verbatim>\<open>json.loads\<close> (\<open>None\<close> where it raises) and the string formatting of a value in
  an f-string are parameters too. \<open>open_w path\<close> is the exception that \<^verbatim>\<open>open(path, "w")\<close>
  raises, \<open>None\<close> where the file opens.
\<close>

record env =
  gamma_api :: "string \<Rightarrow> http_result"
  clob_api :: "nat \<Rightarrow> (string \<times> json) list \<Rightarrow> http_result"
  clock :: "nat \<Rightarrow> rat"
  json_loads :: "string \<Rightarrow> json option"
  format :: "json \<Rightarrow> string"
  open_w :: "string \<Rightarrow> py_error option"

datatype log_line =
    Fetching_Event string
  | Error_Fetching_Event int
  | Exception_Fetching_Event py_error
  | Error_Fetching_History json int
  | Exception_Fetching_History py_error
  | No_Events_Found
  | Empty_Event_List
  | Found_Markets nat
  | Processing json
  | No_ClobTokenIds
  | Fetched_Points nat
  | No_History

text \<open>
  \<open>Dump path indent v\<close> is \<^verbatim>\<open>json.dump(v, f, indent=...)\<close> into the file \<open>path\<close> opened for
  writing; \<open>indent = None\<close> is the call without the \<^verbatim>\<open>indent\<close> argument (compact, one line).
  The two fixed paths, \<^verbatim>\<open>event.json\<close> and \<^verbatim>\<open>summary.json\<close> in the directory the script has
  just made sure of, are taken to open. The name of a history file is built from the
  market's \<^verbatim>\<open>id\<close>, which comes from the remote service: whether it opens is asked of
  \<open>open_w\<close>, and a failure is an uncaught exception.
\<close>

datatype effect =
    Print log_line
  | Http_Get string "(string \<times> json) list"
  | Makedirs string
  | Dump string "nat option" json

type_synonym 'a io = "effect list \<times> (py_error + 'a)"

definition ret :: "'a \<Rightarrow> 'a io" where
  "ret x = ([], Inr x)"

definition pure :: "py_error + 'a \<Rightarrow> 'a io" where
  "pure r = ([], r)"

definition emit :: "effect list \<Rightarrow> 'a io \<Rightarrow> 'a io" where
  "emit es m = (es @ fst m, snd m)"

definition bind :: "'a io \<Rightarrow> ('a \<Rightarrow> 'b io) \<Rightarrow> 'b io" where
  "bind m f = (case snd m of
                 Inl e \<Rightarrow> (fst m, Inl e)
               | Inr x \<Rightarrow> (fst m @ fst (f x), snd (f x)))"

subsection \<open>The two fetchers\<close>

definition events_url :: "string \<Rightarrow> string" where
  "events_url slug = ''https://gamma-api.polymarket.com/events?slug='' @ slug"

text \<open>
  \<^verbatim>\<open>get_event_data\<close>. The body of the \<^verbatim>\<open>try\<close> either returns the decoded body, or prints the
  status and falls through, or raises; the handler prints and falls through to
  \<^verbatim>\<open>return None\<close>.
\<close>

definition get_event_data :: "env \<Rightarrow> string \<Rightarrow> json io" where
  "get_event_data env slug =
     emit [Http_Get (events_url slug) []]
       (case gamma_api env (events_url slug) of
          Transport_Failure \<Rightarrow>
            emit [Print (Exception_Fetching_Event RequestException)] (ret JNull)
        | Response status_code body \<Rightarrow>
            if status_code = 200 then
              (case body of
                 Some j \<Rightarrow> ret j
               | None \<Rightarrow> emit [Print (Exception_Fetching_Event JSONDecodeError)] (ret JNull))
            else emit [Print (Error_Fetching_Event status_code)] (ret JNull))"

definition history_url :: string where
  "history_url = ''https://clob.polymarket.com/prices-history''"

definition history_params :: "json \<Rightarrow> int \<Rightarrow> (string \<times> json) list" where
  "history_params market_id start_ts =
     [(''market'', market_id), (''startTs'', JInt start_ts), (''fidelity'', JInt 1)]"

text \<open>\<^verbatim>\<open>get_price_history\<close>, as the \<open>k\<close>-th request to the time-series service.\<close>

definition get_price_history :: "env \<Rightarrow> nat \<Rightarrow> json \<Rightarrow> int \<Rightarrow> json io" where
  "get_price_history env k market_id start_ts =
     emit [Http_Get history_url (history_params market_id start_ts)]
       (case clob_api env k (history_params market_id start_ts) of
          Transport_Failure \<Rightarrow>
            emit [Print (Exception_Fetching_History RequestException)] (ret JNull)
        | Response status_code body \<Rightarrow>
            if status_code = 200 then
              (case body of
                 Some j \<Rightarrow> ret j
               | None \<Rightarrow> emit [Print (Exception_Fetching_History JSONDecodeError)] (ret JNull))
            else emit [Print (Error_Fetching_History market_id status_code)] (ret JNull))"

subsection \<open>The market loop\<close>

text \<open>
  The state of the loop: the list \<^verbatim>\<open>stats\<close>, and how many markets have reached the fetch so
  far (each of them reads the clock once and sends one request).
\<close>

record loop_state =
  stats :: "json list"
  fetches :: nat

definition history_filename :: "env \<Rightarrow> json \<Rightarrow> string" where
  "history_filename env market_id = ''public/data/history_'' @ format env market_id @ ''.json''"

text \<open>\<^verbatim>\<open>open(filename, "w")\<close> on a history file.\<close>

definition py_open :: "env \<Rightarrow> string \<Rightarrow> py_error + unit" where
  "py_open env path = (case open_w env path of None \<Rightarrow> Inr () | Some e \<Rightarrow> Inl e)"

text \<open>The dict appended to \<^verbatim>\<open>stats\<close>.\<close>

definition stat_entry :: "json \<Rightarrow> json \<Rightarrow> json \<Rightarrow> nat \<Rightarrow> json \<Rightarrow> json" where
  "stat_entry market_id question yes_token_id n volume =
     JObj [(''id'', market_id), (''question'', question), (''token_id'', yes_token_id),
           (''points'', JInt (int n)), (''volume'', volume)]"

text \<open>
  The token list after the \<^verbatim>\<open>isinstance(clob_token_ids, str)\<close> step: a string is decoded,
  and the bare \<^verbatim>\<open>except\<close> turns a decoding failure into the empty list.
\<close>

definition normalise_tokens :: "env \<Rightarrow> json \<Rightarrow> json" where
  "normalise_tokens env clob_token_ids =
     (case clob_token_ids of
        JStr s \<Rightarrow> (case json_loads env s of Some j \<Rightarrow> j | None \<Rightarrow> JArr [])
      | _ \<Rightarrow> clob_token_ids)"

text \<open>The start timestamp of the \<open>k\<close>-th fetch: \<^verbatim>\<open>int(time.time()) - 14 * 24 * 3600\<close>.\<close>

definition start_ts_at :: "env \<Rightarrow> nat \<Rightarrow> int" where
  "start_ts_at env k = py_int (clock env k) - 14 * 24 * 3600"

text \<open>The test \<^verbatim>\<open>history and 'history' in history\<close>.\<close>

definition has_history :: "json \<Rightarrow> py_error + bool" where
  "has_history history = (if truthy history then py_in ''history'' history else Inr False)"

text \<open>
  The part of the loop body after the fetch, for the market, its question, its token and
  the fetched value. The dict literal evaluates \<^verbatim>\<open>market["id"]\<close> and \<^verbatim>\<open>len(points)\<close> a second
  time; both have just succeeded on the same objects, so the values are reused.
\<close>

definition store_history :: "env \<Rightarrow> json \<Rightarrow> json \<Rightarrow> json \<Rightarrow> json \<Rightarrow> loop_state \<Rightarrow> loop_state io" where
  "store_history env market question yes_token_id history st =
     bind (pure (has_history history)) (\<lambda>ok.
       if ok then
         bind (pure (py_item history ''history'')) (\<lambda>points.
         bind (pure (py_len points)) (\<lambda>n.
         emit [Print (Fetched_Points n)]
           (bind (pure (py_item market ''id'')) (\<lambda>market_id.
            bind (pure (py_open env (history_filename env market_id))) (\<lambda>f.
            emit [Dump (history_filename env market_id) None history]
              (bind (pure (py_get market ''volume'' (JInt 0))) (\<lambda>volume.
               ret (st\<lparr>stats := stats st @
                      [stat_entry market_id question yes_token_id n volume]\<rparr>))))))))
       else emit [Print No_History] (ret st))"

text \<open>One pass through the body of \<^verbatim>\<open>for market in markets\<close>.\<close>

definition process_market :: "env \<Rightarrow> json \<Rightarrow> loop_state \<Rightarrow> loop_state io" where
  "process_market env market st =
     bind (pure (py_get market ''question'' (JStr ''''))) (\<lambda>question.
     emit [Print (Processing question)]
       (bind (pure (py_get market ''clobTokenIds'' (JArr []))) (\<lambda>raw.
        let clob_token_ids = normalise_tokens env raw in
        if \<not> truthy clob_token_ids then emit [Print No_ClobTokenIds] (ret st)
        else
          bind (pure (py_first clob_token_ids)) (\<lambda>yes_token_id.
          bind (get_price_history env (fetches st) yes_token_id (start_ts_at env (fetches st)))
            (\<lambda>history.
               store_history env market question yes_token_id history
                 (st\<lparr>fetches := Suc (fetches st)\<rparr>))))))"

fun market_loop :: "env \<Rightarrow> json list \<Rightarrow> loop_state \<Rightarrow> loop_state io" where
  "market_loop env [] st = ret st"
| "market_loop env (market # markets) st =
     bind (process_market env market st) (market_loop env markets)"

subsection \<open>The entry point\<close>

definition slug :: string where
  "slug = ''portugal-presidential-election''"

text \<open>\<^verbatim>\<open>main\<close> from the line \<^verbatim>\<open>markets = event.get('markets', [])\<close> on.\<close>

definition main_event :: "env \<Rightarrow> json \<Rightarrow> unit io" where
  "main_event env event =
     bind (pure (py_get event ''markets'' (JArr []))) (\<lambda>markets.
     bind (pure (py_len markets)) (\<lambda>n.
     emit [Print (Found_Markets n), Makedirs ''public/data'',
           Dump ''public/data/event.json'' (Some 2) event]
       (bind (pure (py_iter markets)) (\<lambda>ms.
        bind (market_loop env ms \<lparr>stats = [], fetches = 0\<rparr>) (\<lambda>st.
        emit [Dump ''public/data/summary.json'' (Some 2) (JArr (stats st))] (ret ()))))))"

definition main :: "env \<Rightarrow> unit io" where
  "main env =
     emit [Print (Fetching_Event slug)]
       (bind (get_event_data env slug) (\<lambda>events.
          if \<not> truthy events then emit [Print No_Events_Found] (ret ())
          else
            (case events of
               JArr xs \<Rightarrow>
                 (if length xs = 0 then emit [Print Empty_Event_List] (ret ())
                  else main_event env (xs ! 0))
             | _ \<Rightarrow> main_event env events)))"

subsection \<open>Reading a trace\<close>

text \<open>The files written by a run, oldest first, each with the indent and the value dumped.\<close>

fun dump_of :: "effect \<Rightarrow> (string \<times> nat option \<times> json) list" where
  "dump_of (Dump path indent v) = [(path, indent, v)]"
| "dump_of _ = []"

definition dumps :: "effect list \<Rightarrow> (string \<times> nat option \<times> json) list" where
  "dumps es = concat (map dump_of es)"

text \<open>What was written to one path, oldest first.\<close>

definition file_writes :: "string \<Rightarrow> effect list \<Rightarrow> (nat option \<times> json) list" where
  "file_writes path es = map snd (filter (\<lambda>d. fst d = path) (dumps es))"

text \<open>The \<^verbatim>\<open>startTs\<close> parameters of the requests of a run, oldest first.\<close>

fun start_ts_of :: "effect \<Rightarrow> int list" where
  "start_ts_of (Http_Get url params) =
     (case map_of params ''startTs'' of Some (JInt t) \<Rightarrow> [t] | _ \<Rightarrow> [])"
| "start_ts_of _ = []"

definition start_timestamps :: "effect list \<Rightarrow> int list" where
  "start_timestamps es = concat (map start_ts_of es)"

text \<open>A printed line other than \<^verbatim>\<open>Empty event list.\<close>\<close>

fun is_progress_line :: "effect \<Rightarrow> bool" where
  "is_progress_line (Print l) = (l \<noteq> Empty_Event_List)"
| "is_progress_line _ = False"

subsection \<open>Vocabulary of the properties\<close>

text \<open>
  The token the script fetches for a market: the first element of its normalised
  \<^verbatim>\<open>clobTokenIds\<close>, with the errors of \<^verbatim>\<open>market.get\<close> and \<^verbatim>\<open>clob_token_ids[0]\<close>.
\<close>

definition yes_token :: "env \<Rightarrow> json \<Rightarrow> py_error + json" where
  "yes_token env market =
     (case py_get market ''clobTokenIds'' (JArr []) of
        Inl e \<Rightarrow> Inl e
      | Inr raw \<Rightarrow> py_first (normalise_tokens env raw))"

text \<open>
  A valid history payload: status 200 and a body that is an object with a \<^verbatim>\<open>history\<close>
  array; the result is that array.
\<close>

definition history_points :: "http_result \<Rightarrow> json list option" where
  "history_points r =
     (case r of
        Transport_Failure \<Rightarrow> None
      | Response status_code body \<Rightarrow>
          if status_code = 200 then
            (case body of
               Some (JObj kvs) \<Rightarrow>
                 (case map_of kvs ''history'' of Some (JArr pts) \<Rightarrow> Some pts | _ \<Rightarrow> None)
             | _ \<Rightarrow> None)
          else None)"

text \<open>
  The history array the service returns for a market that is the \<open>k\<close>-th to be fetched, where
  the market has a token and the reply is a valid payload.
\<close>

definition market_history :: "env \<Rightarrow> nat \<Rightarrow> json \<Rightarrow> json list option" where
  "market_history env k market =
     (case yes_token env market of
        Inl e \<Rightarrow> None
      | Inr tok \<Rightarrow> history_points (clob_api env k (history_params tok (start_ts_at env k))))"

text \<open>A summary entry \<open>e\<close> is the one built from a market: its fields are the market's.\<close>

definition entry_of_market :: "env \<Rightarrow> json \<Rightarrow> json \<Rightarrow> bool" where
  "entry_of_market env e market =
     (py_item e ''id'' = py_item market ''id''
      \<and> py_item e ''question'' = py_get market ''question'' (JStr '''')
      \<and> py_item e ''token_id'' = yes_token env market
      \<and> py_item e ''volume'' = py_get market ''volume'' (JInt 0)
      \<and> (case py_item e ''points'' of Inr (JInt n) \<Rightarrow> 0 \<le> n | _ \<Rightarrow> False))"

text \<open>The history file of a market with an \<^verbatim>\<open>id\<close>.\<close>

definition market_history_file :: "env \<Rightarrow> json \<Rightarrow> string" where
  "market_history_file env market =
     (case py_item market ''id'' of Inr i \<Rightarrow> history_filename env i | Inl e \<Rightarrow> [])"

text \<open>
  A reply of the time-series service after which the script finds no history: the request
  fails, the status is not 200, the body does not decode, or the decoded value fails the
  test \<^verbatim>\<open>history and 'history' in history\<close>.
\<close>

definition no_history_reply :: "http_result \<Rightarrow> bool" where
  "no_history_reply r =
     (case r of
        Transport_Failure \<Rightarrow> True
      | Response status_code body \<Rightarrow>
          status_code \<noteq> 200
          \<or> (case body of None \<Rightarrow> True | Some j \<Rightarrow> has_history j = Inr False))"

text \<open>
  The vocabulary of the specification's first testable property, written from its data
  model and not from the script. The token list of a market is its \<^verbatim>\<open>clobTokenIds\<close>: a
  native list as it stands, a string as the list it decodes to, and there is none where
  the value is anything else.
\<close>

definition token_ids :: "env \<Rightarrow> json \<Rightarrow> json list option" where
  "token_ids env market =
     (case market of
        JObj kvs \<Rightarrow>
          (case map_of kvs ''clobTokenIds'' of
             None \<Rightarrow> Some []
           | Some (JArr ts) \<Rightarrow> Some ts
           | Some (JStr s) \<Rightarrow> (case json_loads env s of Some (JArr ts) \<Rightarrow> Some ts | _ \<Rightarrow> None)
           | Some _ \<Rightarrow> None)
      | _ \<Rightarrow> None)"

definition has_tokens :: "env \<Rightarrow> json \<Rightarrow> bool" where
  "has_tokens env market = (case token_ids env market of Some (t # ts) \<Rightarrow> True | _ \<Rightarrow> False)"

definition first_token :: "env \<Rightarrow> json \<Rightarrow> json option" where
  "first_token env market = (case token_ids env market of Some (t # ts) \<Rightarrow> Some t | _ \<Rightarrow> None)"

text \<open>A well-formed market: an object with an \<^verbatim>\<open>id\<close> and a token list.\<close>

definition wf_market :: "env \<Rightarrow> json \<Rightarrow> bool" where
  "wf_market env market =
     ((case market of JObj kvs \<Rightarrow> map_of kvs ''id'' \<noteq> None | _ \<Rightarrow> False)
      \<and> token_ids env market \<noteq> None)"

text \<open>
  The history array of a market that is the \<open>k\<close>-th to be fetched: the \<^verbatim>\<open>history\<close> of the valid
  payload with which the service answers the \<open>k\<close>-th request, made for the market's first
  token.
\<close>

definition fetched_history :: "env \<Rightarrow> nat \<Rightarrow> json \<Rightarrow> json list option" where
  "fetched_history env k market =
     (case first_token env market of
        None \<Rightarrow> None
      | Some tok \<Rightarrow> history_points (clob_api env k (history_params tok (start_ts_at env k))))"

text \<open>
  A summary entry \<open>e\<close> carries the \<^verbatim>\<open>id\<close> and the first token of the market and, as
  \<^verbatim>\<open>points\<close>, the length of the history array the market got as the \<open>k\<close>-th fetch.
\<close>

definition points_entry :: "env \<Rightarrow> nat \<Rightarrow> json \<Rightarrow> json \<Rightarrow> bool" where
  "points_entry env k market e =
     (case fetched_history env k market of
        None \<Rightarrow> False
      | Some pts \<Rightarrow>
          py_item e ''points'' = Inr (JInt (int (length pts)))
          \<and> py_item e ''id'' = py_item market ''id''
          \<and> map_option Inr (first_token env market) = Some (py_item e ''token_id''))"

text \<open>
  Every write to a path is pretty-printed (\<^verbatim>\<open>indent=2\<close>), respectively compact (no
  \<^verbatim>\<open>indent\<close> argument).
\<close>

definition written_pretty :: "string \<Rightarrow> effect list \<Rightarrow> bool" where
  "written_pretty path es = list_all (\<lambda>w. fst w = Some 2) (file_writes path es)"

definition written_compact :: "string \<Rightarrow> effect list \<Rightarrow> bool" where
  "written_compact path es = list_all (\<lambda>w. fst w = None) (file_writes path es)"

subsection \<open>Example runs\<close>

text \<open>
  The example of the specification, extended: an event with three markets, the second with
  the token list \<^verbatim>\<open>"[]"\<close>, a service that answers every request with two points, and
  a clock that advances by one second from one reading to the next. The decoder and the
  formatter are the standard ones on the strings that occur. The file system has no
  directory below \<^verbatim>\<open>public/data\<close>: a file whose name, after \<^verbatim>\<open>public/data/\<close>, has a slash in
  it does not open.
\<close>

definition sample_loads :: "string \<Rightarrow> json option" where
  "sample_loads s =
     (if s = ''[]'' then Some (JArr [])
      else if s = ''[101, 102]'' then Some (JArr [JInt 101, JInt 102])
      else None)"

definition sample_open :: "string \<Rightarrow> py_error option" where
  "sample_open path =
     (if CHR ''/'' \<in> set (drop 12 path) then Some FileNotFoundError else None)"

definition sample_format :: "json \<Rightarrow> string" where
  "sample_format j = (case j of JStr s \<Rightarrow> s | _ \<Rightarrow> ''?'')"

definition sample_history :: json where
  "sample_history =
     JObj [(''history'', JArr [JObj [(''t'', JInt 1), (''p'', JFloat (1 / 2))],
                               JObj [(''t'', JInt 2), (''p'', JFloat (3 / 5))]])]"

definition market_a :: json where
  "market_a = JObj [(''id'', JStr ''m1''), (''question'', JStr ''Will A win?''),
                    (''clobTokenIds'', JArr [JStr ''t1'', JStr ''t2'']), (''volume'', JInt 500)]"

definition market_b :: json where
  "market_b = JObj [(''id'', JStr ''m2''), (''question'', JStr ''Will B win?''),
                    (''clobTokenIds'', JStr ''[]''), (''volume'', JInt 900)]"

definition market_c :: json where
  "market_c = JObj [(''id'', JStr ''m3''), (''question'', JStr ''Will C win?''),
                    (''clobTokenIds'', JArr [JStr ''t5'', JStr ''t6'']), (''volume'', JInt 700)]"

definition event_of :: "json list \<Rightarrow> json" where
  "event_of ms = JObj [(''slug'', JStr slug), (''markets'', JArr ms)]"

definition serving :: "http_result \<Rightarrow> env" where
  "serving r =
     \<lparr>gamma_api = (\<lambda>url. r),
      clob_api = (\<lambda>k params. Response 200 (Some sample_history)),
      clock = (\<lambda>k. 2000000000 + of_nat k),
      json_loads = sample_loads,
      format = sample_format,
      open_w = sample_open\<rparr>"

definition sample_env :: env where
  "sample_env = serving (Response 200 (Some (event_of [market_a, market_b, market_c])))"

text \<open>A market with a token and no \<^verbatim>\<open>id\<close>.\<close>

definition market_without_id :: json where
  "market_without_id = JObj [(''question'', JStr ''Will D win?''),
                             (''clobTokenIds'', JArr [JStr ''t7''])]"

definition env_without_id :: env where
  "env_without_id = serving (Response 200 (Some (event_of [market_without_id])))"

text \<open>The same event, with a time-series service that answers every request with a 503.\<close>

definition env_service_down :: env where
  "env_service_down = env_without_id\<lparr>clob_api := (\<lambda>k params. Response 503 None)\<rparr>"

text \<open>A market whose \<^verbatim>\<open>clobTokenIds\<close> is the number 7.\<close>

definition market_numeric_tokens :: json where
  "market_numeric_tokens = JObj [(''id'', JStr ''m9''), (''clobTokenIds'', JInt 7)]"

definition env_numeric_tokens :: env where
  "env_numeric_tokens = serving (Response 200 (Some (event_of [market_numeric_tokens])))"

text \<open>
  An event that arrives as an array, whose first market has its token list encoded as a
  string.
\<close>

definition market_e :: json where
  "market_e = JObj [(''id'', JStr ''m5''), (''question'', JStr ''Will E win?''),
                    (''clobTokenIds'', JStr ''[101, 102]''), (''volume'', JInt 300)]"

definition env_encoded :: env where
  "env_encoded = serving (Response 200 (Some (JArr [event_of [market_e, market_b, market_a]])))"

text \<open>A well-formed market whose \<^verbatim>\<open>id\<close> has a slash in it.\<close>

definition market_slash_id :: json where
  "market_slash_id = JObj [(''id'', JStr ''a/b''), (''question'', JStr ''Will F win?''),
                           (''clobTokenIds'', JArr [JStr ''t8'']), (''volume'', JInt 100)]"

definition env_slash_id :: env where
  "env_slash_id = serving (Response 200 (Some (event_of [market_slash_id])))"

section \<open>Proofs\<close>

subsection \<open>Sequencing\<close>

lemma bind_pure [simp]: "bind (pure r) f = (case r of Inl e \<Rightarrow> ([], Inl e) | Inr x \<Rightarrow> f x)"
  by (simp add: bind_def pure_def split: sum.splits)
lemma bind_ret [simp]: "bind (ret x) f = f x"
  by (simp add: bind_def ret_def)
lemma bind_emit [simp]: "bind (emit es m) f = emit es (bind m f)"
  by (simp add: bind_def emit_def split: sum.splits)
lemma fst_emit [simp]: "fst (emit es m) = es @ fst m"
  by (simp add: emit_def)
lemma snd_emit [simp]: "snd (emit es m) = snd m"
  by (simp add: emit_def)
lemma fst_ret [simp]: "fst (ret x) = []" by (simp add: ret_def)
lemma snd_ret [simp]: "snd (ret x) = Inr x" by (simp add: ret_def)
lemma fst_bind: "fst (bind m f) = (case snd m of Inl e \<Rightarrow> fst m | Inr x \<Rightarrow> fst m @ fst (f x))"
  by (simp add: bind_def split: sum.splits)
lemma snd_bind: "snd (bind m f) = (case snd m of Inl e \<Rightarrow> Inl e | Inr x \<Rightarrow> snd (f x))"
  by (simp add: bind_def split: sum.splits)

lemma bind_Inr: "bind (es, Inr x) f = emit es (f x)"
  by (simp add: bind_def emit_def)
lemma bind_Inl: "bind (es, Inl e) f = (es, Inl e)"
  by (simp add: bind_def)

lemma dumps_Nil [simp]: "dumps [] = []" by (simp add: dumps_def)
lemma dumps_Cons [simp]: "dumps (e # es) = dump_of e @ dumps es" by (simp add: dumps_def)
lemma dumps_append [simp]: "dumps (es @ es') = dumps es @ dumps es'" by (simp add: dumps_def)
lemma stamps_Nil [simp]: "start_timestamps [] = []" by (simp add: start_timestamps_def)
lemma stamps_Cons [simp]: "start_timestamps (e # es) = start_ts_of e @ start_timestamps es" by (simp add: start_timestamps_def)
lemma stamps_append [simp]: "start_timestamps (es @ es') = start_timestamps es @ start_timestamps es'" by (simp add: start_timestamps_def)

lemma quiet_dumps: "list_all is_progress_line es \<Longrightarrow> dumps es = []"
  by (induction es) (auto elim: is_progress_line.elims)
lemma quiet_stamps: "list_all is_progress_line es \<Longrightarrow> start_timestamps es = []"
  by (induction es) (auto elim: is_progress_line.elims)
lemma quiet_no_empty: "list_all is_progress_line es \<Longrightarrow> Print Empty_Event_List \<notin> set es"
  by (induction es) (auto elim: is_progress_line.elims)

lemma gph_cases:
  "\<exists>ps h. get_price_history env k tok ts =
      (Http_Get history_url (history_params tok ts) # ps, Inr h) \<and> list_all is_progress_line ps"
  by (simp add: get_price_history_def emit_def ret_def split: http_result.splits option.splits)

lemma store_history_cases:
  "(\<exists>e. snd (store_history env market q tok h st) = Inl e \<and>
        list_all is_progress_line (fst (store_history env market q tok h st))) \<or>
   store_history env market q tok h st = ([Print No_History], Inr st) \<or>
   (\<exists>points n mid vol. py_item h ''history'' = Inr points \<and> py_len points = Inr n
       \<and> py_item market ''id'' = Inr mid \<and> py_get market ''volume'' (JInt 0) = Inr vol
       \<and> has_history h = Inr True \<and> open_w env (history_filename env mid) = None
       \<and> store_history env market q tok h st =
          ([Print (Fetched_Points n), Dump (history_filename env mid) None h],
           Inr (st\<lparr>stats := stats st @ [stat_entry mid q tok n vol]\<rparr>)))"
proof (cases "has_history h")
  case (Inl e)
  then show ?thesis by (simp add: store_history_def)
next
  case (Inr ok)
  show ?thesis
  proof (cases ok)
    case False
    with Inr show ?thesis by (simp add: store_history_def emit_def ret_def)
  next
    case True
    show ?thesis
    proof (cases "py_item h ''history''")
      case (Inl e)
      with Inr True show ?thesis by (simp add: store_history_def)
    next
      case points: (Inr points)
      show ?thesis
      proof (cases "py_len points")
        case (Inl e)
        with Inr True points show ?thesis by (simp add: store_history_def)
      next
        case n: (Inr n)
        show ?thesis
        proof (cases "py_item market ''id''")
          case (Inl e)
          with Inr True points n show ?thesis by (simp add: store_history_def emit_def)
        next
          case mid: (Inr mid)
          then obtain kvs where m: "market = JObj kvs" by (cases market) auto
          then obtain vol where vol: "py_get market ''volume'' (JInt 0) = Inr vol" by simp
          show ?thesis
          proof (cases "open_w env (history_filename env mid)")
            case None
            with Inr True points n mid vol show ?thesis
              by (simp add: store_history_def py_open_def emit_def ret_def)
          next
            case (Some e)
            with Inr True points n mid show ?thesis
              by (simp add: store_history_def py_open_def emit_def)
          qed
        qed
      qed
    qed
  qed
qed


lemma process_market_not_obj:
  "(\<And>kvs. market \<noteq> JObj kvs) \<Longrightarrow> process_market env market st = ([], Inl AttributeError)"
  by (cases market) (auto simp add: process_market_def)

lemma process_market_obj:
  fixes kvs env st
  defines "q \<equiv> (case map_of kvs ''question'' of None \<Rightarrow> JStr '''' | Some v \<Rightarrow> v)"
  defines "toks \<equiv> normalise_tokens env (case map_of kvs ''clobTokenIds'' of None \<Rightarrow> JArr [] | Some v \<Rightarrow> v)"
  obtains
    (skip) "\<not> truthy toks"
      "process_market env (JObj kvs) st = ([Print (Processing q), Print No_ClobTokenIds], Inr st)"
  | (bad_tokens) e where "truthy toks" "py_first toks = Inl e"
      "process_market env (JObj kvs) st = ([Print (Processing q)], Inl e)"
  | (fetch) tok ps h where "truthy toks" "py_first toks = Inr tok"
      "get_price_history env (fetches st) tok (start_ts_at env (fetches st)) =
         (Http_Get history_url (history_params tok (start_ts_at env (fetches st))) # ps, Inr h)"
      "list_all is_progress_line ps"
      "process_market env (JObj kvs) st =
         (Print (Processing q) # Http_Get history_url (history_params tok (start_ts_at env (fetches st))) # ps @
            fst (store_history env (JObj kvs) q tok h (st\<lparr>fetches := Suc (fetches st)\<rparr>)),
          snd (store_history env (JObj kvs) q tok h (st\<lparr>fetches := Suc (fetches st)\<rparr>)))"
proof (cases "truthy toks")
  case False
  then have "process_market env (JObj kvs) st = ([Print (Processing q), Print No_ClobTokenIds], Inr st)"
    by (simp add: process_market_def q_def toks_def emit_def ret_def)
  with False show thesis by (rule skip)
next
  case True
  show thesis
  proof (cases "py_first toks")
    case (Inl e)
    with True have "process_market env (JObj kvs) st = ([Print (Processing q)], Inl e)"
      by (simp add: process_market_def q_def toks_def emit_def)
    with True Inl show thesis by (rule bad_tokens)
  next
    case (Inr tok)
    obtain ps h where g: "get_price_history env (fetches st) tok (start_ts_at env (fetches st)) =
         (Http_Get history_url (history_params tok (start_ts_at env (fetches st))) # ps, Inr h)"
       and ps: "list_all is_progress_line ps"
      using gph_cases by blast
    from True Inr g have "process_market env (JObj kvs) st =
         (Print (Processing q) # Http_Get history_url (history_params tok (start_ts_at env (fetches st))) # ps @
            fst (store_history env (JObj kvs) q tok h (st\<lparr>fetches := Suc (fetches st)\<rparr>)),
          snd (store_history env (JObj kvs) q tok h (st\<lparr>fetches := Suc (fetches st)\<rparr>)))"
      by (simp add: process_market_def q_def toks_def bind_Inr) (simp add: emit_def)
    with True Inr g ps show thesis by (rule fetch)
  qed
qed

lemma stat_entry_fields:
  "py_item (stat_entry mid q tok n vol) ''id'' = Inr mid"
  "py_item (stat_entry mid q tok n vol) ''question'' = Inr q"
  "py_item (stat_entry mid q tok n vol) ''token_id'' = Inr tok"
  "py_item (stat_entry mid q tok n vol) ''points'' = Inr (JInt (int n))"
  "py_item (stat_entry mid q tok n vol) ''volume'' = Inr vol"
  by (simp_all add: stat_entry_def)

lemma process_market_step:
  fixes env market st
  defines "r \<equiv> process_market env market st"
  obtains
    (raised) e where "snd r = Inl e" "dumps (fst r) = []"
  | (skipped) st' where "snd r = Inr st'" "stats st' = stats st" "dumps (fst r) = []"
  | (stored) st' e h where "snd r = Inr st'" "stats st' = stats st @ [e]"
      "entry_of_market env e market" "dumps (fst r) = [(market_history_file env market, None, h)]"
proof (cases "\<exists>kvs. market = JObj kvs")
  case False
  then have "r = ([], Inl AttributeError)"
    unfolding r_def by (intro process_market_not_obj) blast
  then show thesis by (intro raised[of AttributeError]) simp_all
next
  case True
  then obtain kvs where m: "market = JObj kvs" by blast
  show thesis
  proof (cases rule: process_market_obj[of env kvs st])
    case skip
    then show thesis using m by (intro skipped[of st]) (simp_all add: r_def)
  next
    case (bad_tokens e)
    then show thesis using m by (intro raised[of e]) (simp_all add: r_def)
  next
    case (fetch tok ps h)
    let ?q = "case map_of kvs ''question'' of None \<Rightarrow> JStr '''' | Some v \<Rightarrow> v"
    let ?st = "st\<lparr>fetches := Suc (fetches st)\<rparr>"
    let ?s = "store_history env (JObj kvs) ?q tok h ?st"
    have r: "fst r = Print (Processing ?q) #
               Http_Get history_url (history_params tok (start_ts_at env (fetches st))) # ps @ fst ?s"
         "snd r = snd ?s"
      using fetch(5) m by (simp_all add: r_def)
    have ps: "dumps ps = []" using fetch(4) by (rule quiet_dumps)
    from store_history_cases[of env "JObj kvs" ?q tok h ?st]
    consider (a) e where "snd ?s = Inl e" "list_all is_progress_line (fst ?s)"
      | (b) "?s = ([Print No_History], Inr ?st)"
      | (c) n mid vol where "py_item (JObj kvs) ''id'' = Inr mid"
          "py_get (JObj kvs) ''volume'' (JInt 0) = Inr vol"
          "?s = ([Print (Fetched_Points n), Dump (history_filename env mid) None h],
                 Inr (?st\<lparr>stats := stats ?st @ [stat_entry mid ?q tok n vol]\<rparr>))"
      by blast
    then show thesis
    proof cases
      case a
      then show thesis using r ps by (intro raised[of e]) (simp_all add: quiet_dumps)
    next
      case b
      then show thesis using r ps by (intro skipped[of ?st]) simp_all
    next
      case c
      have tok: "yes_token env market = Inr tok"
        using fetch(2) m by (simp add: yes_token_def)
      have e: "entry_of_market env (stat_entry mid ?q tok n vol) market"
        using c(1,2) tok m by (simp add: entry_of_market_def stat_entry_fields)
      show thesis
        using r ps c e m
        by (intro stored[of "?st\<lparr>stats := stats ?st @ [stat_entry mid ?q tok n vol]\<rparr>"
                            "stat_entry mid ?q tok n vol" h])
           (simp_all add: market_history_file_def)
    qed
  qed
qed

lemma start_ts_of_history [simp]:
  "start_ts_of (Http_Get url (history_params tok ts)) = [ts]"
  by (simp add: history_params_def)

lemma process_market_fetches:
  fixes env market st
  defines "r \<equiv> process_market env market st"
  shows "(start_timestamps (fst r) = [] \<and> (\<forall>st'. snd r = Inr st' \<longrightarrow> fetches st' = fetches st)) \<or>
         (start_timestamps (fst r) = [start_ts_at env (fetches st)] \<and>
            (\<forall>st'. snd r = Inr st' \<longrightarrow> fetches st' = Suc (fetches st)))"
proof (cases "\<exists>kvs. market = JObj kvs")
  case False
  then have "r = ([], Inl AttributeError)"
    unfolding r_def by (intro process_market_not_obj) blast
  then show ?thesis by simp
next
  case True
  then obtain kvs where m: "market = JObj kvs" by blast
  show ?thesis
  proof (cases rule: process_market_obj[of env kvs st])
    case skip
    then show ?thesis using m by (simp add: r_def)
  next
    case (bad_tokens e)
    then show ?thesis using m by (simp add: r_def)
  next
    case (fetch tok ps h)
    let ?q = "case map_of kvs ''question'' of None \<Rightarrow> JStr '''' | Some v \<Rightarrow> v"
    let ?st = "st\<lparr>fetches := Suc (fetches st)\<rparr>"
    let ?s = "store_history env (JObj kvs) ?q tok h ?st"
    have r: "fst r = Print (Processing ?q) #
               Http_Get history_url (history_params tok (start_ts_at env (fetches st))) # ps @ fst ?s"
         "snd r = snd ?s"
      using fetch(5) m by (simp_all add: r_def)
    have ps: "start_timestamps ps = []" using fetch(4) by (rule quiet_stamps)
    from store_history_cases[of env "JObj kvs" ?q tok h ?st]
    have "start_timestamps (fst ?s) = [] \<and> (\<forall>st'. snd ?s = Inr st' \<longrightarrow> fetches st' = Suc (fetches st))"
      by (auto simp: quiet_stamps)
    then show ?thesis using r ps by (simp add: history_params_def)
  qed
qed

lemma process_market_no_empty:
  "Print Empty_Event_List \<notin> set (fst (process_market env market st))"
proof (cases "\<exists>kvs. market = JObj kvs")
  case False
  then have "process_market env market st = ([], Inl AttributeError)"
    by (intro process_market_not_obj) blast
  then show ?thesis by simp
next
  case True
  then obtain kvs where m: "market = JObj kvs" by blast
  show ?thesis
  proof (cases rule: process_market_obj[of env kvs st])
    case skip
    then show ?thesis using m by simp
  next
    case (bad_tokens e)
    then show ?thesis using m by simp
  next
    case (fetch tok ps h)
    let ?q = "case map_of kvs ''question'' of None \<Rightarrow> JStr '''' | Some v \<Rightarrow> v"
    let ?st = "st\<lparr>fetches := Suc (fetches st)\<rparr>"
    let ?s = "store_history env (JObj kvs) ?q tok h ?st"
    from store_history_cases[of env "JObj kvs" ?q tok h ?st]
    have "Print Empty_Event_List \<notin> set (fst ?s)"
      by (auto dest: quiet_no_empty)
    then show ?thesis using fetch(4,5) m by (auto dest: quiet_no_empty)
  qed
qed

lemma market_loop_Cons_Inl:
  "snd (process_market env m st) = Inl e \<Longrightarrow>
     market_loop env (m # ms) st = (fst (process_market env m st), Inl e)"
  by (simp add: bind_def)

declare market_loop.simps(2) [simp del]

lemma market_loop_Cons_Inr:
  "snd (process_market env m st) = Inr st' \<Longrightarrow>
     market_loop env (m # ms) st =
       (fst (process_market env m st) @ fst (market_loop env ms st'), snd (market_loop env ms st'))"
  by (simp add: bind_def market_loop.simps(2))

lemma market_loop_no_empty:
  "Print Empty_Event_List \<notin> set (fst (market_loop env ms st))"
proof (induction ms arbitrary: st)
  case Nil
  show ?case by simp
next
  case (Cons m ms)
  show ?case
  proof (cases "snd (process_market env m st)")
    case (Inl e)
    then show ?thesis
      using process_market_no_empty[of env m st] by (simp add: market_loop_Cons_Inl)
  next
    case (Inr st')
    then show ?thesis
      using process_market_no_empty[of env m st] Cons.IH[of st']
      by (simp add: market_loop_Cons_Inr)
  qed
qed

lemma market_loop_fetches:
  "start_timestamps (fst (market_loop env ms st)) =
     map (start_ts_at env)
       [fetches st ..< fetches st + length (start_timestamps (fst (market_loop env ms st)))]
   \<and> (\<forall>st'. snd (market_loop env ms st) = Inr st' \<longrightarrow>
         fetches st' = fetches st + length (start_timestamps (fst (market_loop env ms st))))"
proof (induction ms arbitrary: st)
  case Nil
  show ?case by simp
next
  case (Cons m ms)
  let ?r = "process_market env m st"
  show ?case
  proof (cases "snd ?r")
    case (Inl e)
    then show ?thesis
      using process_market_fetches[of env m st] by (auto simp add: market_loop_Cons_Inl)
  next
    case (Inr st')
    let ?l = "market_loop env ms st'"
    from process_market_fetches[of env m st] Inr
    consider (same) "start_timestamps (fst ?r) = []" "fetches st' = fetches st"
      | (fetched) "start_timestamps (fst ?r) = [start_ts_at env (fetches st)]"
          "fetches st' = Suc (fetches st)"
      by auto
    then show ?thesis
    proof cases
      case same
      then show ?thesis using Cons.IH[of st'] Inr by (simp add: market_loop_Cons_Inr)
    next
      case fetched
      have "[fetches st ..< fetches st + Suc n] = fetches st # [Suc (fetches st) ..< Suc (fetches st) + n]" for n
        by (simp add: upt_conv_Cons)
      then show ?thesis using fetched Cons.IH[of st'] Inr
        by (simp add: market_loop_Cons_Inr)
    qed
  qed
qed

lemma market_loop_dumps:
  "\<exists>ms'. subseq ms' ms
     \<and> map (\<lambda>d. (fst d, fst (snd d))) (dumps (fst (market_loop env ms st))) =
         map (\<lambda>m. (market_history_file env m, None)) ms'
     \<and> (\<forall>st'. snd (market_loop env ms st) = Inr st' \<longrightarrow>
           (\<exists>new. stats st' = stats st @ new \<and> list_all2 (entry_of_market env) new ms'))"
proof (induction ms arbitrary: st)
  case Nil
  show ?case by simp
next
  case (Cons m ms)
  let ?r = "process_market env m st"
  show ?case
  proof (cases rule: process_market_step[of env m st])
    case (raised e)
    then have "market_loop env (m # ms) st = (fst ?r, Inl e)"
      by (simp add: market_loop_Cons_Inl)
    with raised show ?thesis by (intro exI[of _ "[]"]) simp
  next
    case (skipped st')
    from Cons.IH[of st'] obtain ms' where ms': "subseq ms' ms"
      "map (\<lambda>d. (fst d, fst (snd d))) (dumps (fst (market_loop env ms st'))) =
         map (\<lambda>m. (market_history_file env m, None)) ms'"
      "\<forall>st''. snd (market_loop env ms st') = Inr st'' \<longrightarrow>
           (\<exists>new. stats st'' = stats st' @ new \<and> list_all2 (entry_of_market env) new ms')"
      by blast
    have "subseq ms' (m # ms)" using ms'(1) by (rule list_emb_Cons)
    with skipped ms'(2,3) show ?thesis
      by (intro exI[of _ ms']) (simp add: market_loop_Cons_Inr)
  next
    case (stored st' e h)
    from Cons.IH[of st'] obtain ms' where ms': "subseq ms' ms"
      "map (\<lambda>d. (fst d, fst (snd d))) (dumps (fst (market_loop env ms st'))) =
         map (\<lambda>m. (market_history_file env m, None)) ms'"
      "\<forall>st''. snd (market_loop env ms st') = Inr st'' \<longrightarrow>
           (\<exists>new. stats st'' = stats st' @ new \<and> list_all2 (entry_of_market env) new ms')"
      by blast
    have sub: "subseq (m # ms') (m # ms)" using ms'(1) by simp
    have "\<exists>new. stats st'' = stats st @ new \<and> list_all2 (entry_of_market env) new (m # ms')"
      if "snd (market_loop env ms st') = Inr st''" for st''
    proof -
      from ms'(3) that obtain new where "stats st'' = stats st' @ new"
        "list_all2 (entry_of_market env) new ms'" by blast
      with stored(2,3) show ?thesis by (intro exI[of _ "e # new"]) simp
    qed
    with stored sub ms'(2) show ?thesis
      by (intro exI[of _ "m # ms'"]) (simp add: market_loop_Cons_Inr)
  qed
qed

subsection \<open>The entry point\<close>

lemma get_event_data_cases:
  "\<exists>ps j. get_event_data env s = (Http_Get (events_url s) [] # ps, Inr j)
     \<and> list_all is_progress_line ps"
  by (simp add: get_event_data_def emit_def ret_def split: http_result.splits option.splits)

lemma get_event_data_ok:
  "gamma_api env (events_url s) = Response 200 (Some j) \<Longrightarrow>
     get_event_data env s = ([Http_Get (events_url s) []], Inr j)"
  by (simp add: get_event_data_def emit_def ret_def)

lemma main_no_event:
  assumes "snd (get_event_data env slug) = Inr events" "\<not> truthy events"
  shows "main env =
    (Print (Fetching_Event slug) # fst (get_event_data env slug) @ [Print No_Events_Found], Inr ())"
  using assms by (simp add: main_def bind_def emit_def ret_def)

lemma main_with_event:
  assumes "snd (get_event_data env slug) = Inr events" "truthy events"
    and "events = JObj kvs \<or> (\<exists>rest. events = JArr (JObj kvs # rest))"
  shows "main env =
    emit (Print (Fetching_Event slug) # fst (get_event_data env slug)) (main_event env (JObj kvs))"
  using assms by (auto simp add: main_def bind_def emit_def)

lemma main_event_run:
  assumes "map_of kvs ''markets'' = Some markets" "py_len markets = Inr n"
    "py_iter markets = Inr ms"
  shows "main_event env (JObj kvs) =
     emit [Print (Found_Markets n), Makedirs ''public/data'',
           Dump ''public/data/event.json'' (Some 2) (JObj kvs)]
       (bind (market_loop env ms \<lparr>stats = [], fetches = 0\<rparr>) (\<lambda>st.
          emit [Dump ''public/data/summary.json'' (Some 2) (JArr (stats st))] (ret ())))"
  using assms by (simp add: main_event_def)

lemma main_event_no_markets:
  assumes "map_of kvs ''markets'' = None"
  shows "main_event env (JObj kvs) =
     ([Print (Found_Markets 0), Makedirs ''public/data'',
       Dump ''public/data/event.json'' (Some 2) (JObj kvs),
       Dump ''public/data/summary.json'' (Some 2) (JArr [])], Inr ())"
  using assms by (simp add: main_event_def emit_def ret_def bind_Inr)

lemma main_event_not_obj:
  "(\<And>kvs. event \<noteq> JObj kvs) \<Longrightarrow> main_event env event = ([], Inl AttributeError)"
  by (cases event) (auto simp add: main_event_def)

lemma py_len_iter: "py_len v = Inr n \<Longrightarrow> \<exists>ms. py_iter v = Inr ms"
  by (cases v) auto

lemma main_event_unsized:
  assumes "map_of kvs ''markets'' = Some markets" "py_len markets = Inl e"
  shows "main_event env (JObj kvs) = ([], Inl e)"
  using assms by (simp add: main_event_def)

lemma history_filename_distinct [simp]:
  "history_filename env mid \<noteq> ''public/data/event.json''"
  "history_filename env mid \<noteq> ''public/data/summary.json''"
  by (simp_all add: history_filename_def)

lemmas run_defs = main_def main_event_def get_event_data_def get_price_history_def
  process_market_def store_history_def normalise_tokens_def has_history_def start_ts_at_def
  py_int_def history_filename_def stat_entry_def history_params_def py_open_def
  serving_def sample_loads_def sample_format_def sample_open_def sample_history_def
  market_a_def market_b_def market_c_def event_of_def sample_env_def
  market_without_id_def env_without_id_def market_numeric_tokens_def env_numeric_tokens_def
  emit_def ret_def market_loop.simps bind_Inr bind_Inl

lemma main_event_no_empty: "Print Empty_Event_List \<notin> set (fst (main_event env event))"
proof (cases "\<exists>kvs. event = JObj kvs")
  case False
  then have "main_event env event = ([], Inl AttributeError)"
    by (intro main_event_not_obj) blast
  then show ?thesis by simp
next
  case True
  then obtain kvs where e: "event = JObj kvs" by blast
  show ?thesis
  proof (cases "map_of kvs ''markets''")
    case None
    then show ?thesis using e by (simp add: main_event_no_markets)
  next
    case (Some markets)
    show ?thesis
    proof (cases "py_len markets")
      case (Inl err)
      with Some e show ?thesis by (simp add: main_event_unsized)
    next
      case (Inr n)
      then obtain ms where ms: "py_iter markets = Inr ms" using py_len_iter by blast
      show ?thesis
        using market_loop_no_empty[of env ms "\<lparr>stats = [], fetches = 0\<rparr>"] e
        by (simp add: main_event_run[OF Some Inr ms] fst_bind split: sum.splits)
    qed
  qed
qed

lemma main_event_stamps:
  "start_timestamps (fst (main_event env event)) =
     map (start_ts_at env) [0 ..< length (start_timestamps (fst (main_event env event)))]"
proof (cases "\<exists>kvs. event = JObj kvs")
  case False
  then have "main_event env event = ([], Inl AttributeError)"
    by (intro main_event_not_obj) blast
  then show ?thesis by simp
next
  case True
  then obtain kvs where e: "event = JObj kvs" by blast
  show ?thesis
  proof (cases "map_of kvs ''markets''")
    case None
    then show ?thesis using e by (simp add: main_event_no_markets)
  next
    case (Some markets)
    show ?thesis
    proof (cases "py_len markets")
      case (Inl err)
      with Some e show ?thesis by (simp add: main_event_unsized)
    next
      case (Inr n)
      then obtain ms where ms: "py_iter markets = Inr ms" using py_len_iter by blast
      let ?l = "market_loop env ms \<lparr>stats = [], fetches = 0\<rparr>"
      have "start_timestamps (fst (main_event env event)) = start_timestamps (fst ?l)"
        using e by (simp add: main_event_run[OF Some Inr ms] fst_bind split: sum.splits)
      then show ?thesis
        using market_loop_fetches[of env ms "\<lparr>stats = [], fetches = 0\<rparr>"] by simp
    qed
  qed
qed

lemma main_resolved:
  assumes "snd (get_event_data env slug) = Inr events" "truthy events"
  shows "\<exists>ev. main env =
    emit (Print (Fetching_Event slug) # fst (get_event_data env slug)) (main_event env ev)"
  using assms
  by (cases events; cases "case events of JArr xs \<Rightarrow> xs | _ \<Rightarrow> []")
     (auto simp add: main_def bind_def emit_def)

lemma main_event_shape:
  assumes "py_get event ''markets'' (JArr []) = Inr markets" "py_len markets = Inr n"
    "py_iter markets = Inr ms"
  shows "fst (main_event env event) =
           [Print (Found_Markets n), Makedirs ''public/data'',
            Dump ''public/data/event.json'' (Some 2) event]
           @ fst (market_loop env ms \<lparr>stats = [], fetches = 0\<rparr>)
           @ (case snd (market_loop env ms \<lparr>stats = [], fetches = 0\<rparr>) of
                Inl e \<Rightarrow> []
              | Inr st \<Rightarrow> [Dump ''public/data/summary.json'' (Some 2) (JArr (stats st))])"
    and "snd (main_event env event) =
           (case snd (market_loop env ms \<lparr>stats = [], fetches = 0\<rparr>) of
              Inl e \<Rightarrow> Inl e
            | Inr st \<Rightarrow> Inr ())"
  using assms by (simp_all add: main_event_def fst_bind snd_bind split: sum.splits)

lemma main_event_failed:
  assumes "py_get event ''markets'' (JArr []) = Inl e
           \<or> (\<exists>markets. py_get event ''markets'' (JArr []) = Inr markets \<and> py_len markets = Inl e)"
  shows "main_event env event = ([], Inl e)"
  using assms by (auto simp add: main_event_def)

lemma main_event_cases:
  obtains (failed) e where "main_event env event = ([], Inl e)"
  | (ran) markets n ms where "py_get event ''markets'' (JArr []) = Inr markets"
      "py_len markets = Inr n" "py_iter markets = Inr ms"
proof (cases "py_get event ''markets'' (JArr [])")
  case (Inl e)
  then show thesis using main_event_failed[of event e env] failed by blast
next
  case (Inr markets)
  show thesis
  proof (cases "py_len markets")
    case (Inl e)
    with Inr show thesis using main_event_failed[of event e env] failed by blast
  next
    case n: (Inr n)
    then obtain ms where "py_iter markets = Inr ms" using py_len_iter by blast
    with Inr n show thesis by (rule ran)
  qed
qed

lemma history_filename_distinct_sym [simp]:
  "''public/data/event.json'' \<noteq> history_filename env mid"
  "''public/data/summary.json'' \<noteq> history_filename env mid"
  by (simp_all add: history_filename_def)

lemma market_history_file_distinct [simp]:
  "market_history_file env m \<noteq> ''public/data/event.json''"
  "market_history_file env m \<noteq> ''public/data/summary.json''"
  by (simp_all add: market_history_file_def split: sum.splits)

lemma market_loop_dump_styles:
  assumes "d \<in> set (dumps (fst (market_loop env ms st)))"
  shows "fst (snd d) = None \<and> fst d \<noteq> ''public/data/event.json''
         \<and> fst d \<noteq> ''public/data/summary.json''"
proof -
  from market_loop_dumps[of ms env st] obtain ms' where
    "map (\<lambda>d. (fst d, fst (snd d))) (dumps (fst (market_loop env ms st))) =
       map (\<lambda>m. (market_history_file env m, None)) ms'" by blast
  moreover have "(fst d, fst (snd d)) \<in> set (map (\<lambda>d. (fst d, fst (snd d))) (dumps (fst (market_loop env ms st))))"
    using assms by force
  ultimately obtain m where "(fst d, fst (snd d)) = (market_history_file env m, None)"
    by auto
  then show ?thesis by simp
qed

lemma file_writes_simps [simp]:
  "file_writes p [] = []"
  "file_writes p (Print l # es) = file_writes p es"
  "file_writes p (Http_Get u ps # es) = file_writes p es"
  "file_writes p (Makedirs dir # es) = file_writes p es"
  "file_writes p (Dump q i v # es) = (if q = p then (i, v) # file_writes p es else file_writes p es)"
  "file_writes p (es @ es') = file_writes p es @ file_writes p es'"
  by (simp_all add: file_writes_def)

lemma quiet_file_writes: "list_all is_progress_line es \<Longrightarrow> file_writes p es = []"
  by (simp add: file_writes_def quiet_dumps)

lemma market_loop_writes:
  "file_writes ''public/data/event.json'' (fst (market_loop env ms st)) = []"
  "file_writes ''public/data/summary.json'' (fst (market_loop env ms st)) = []"
  "list_all (\<lambda>w. fst w = None) (file_writes p (fst (market_loop env ms st)))"
  using market_loop_dump_styles[of _ env ms st]
  by (auto simp add: file_writes_def filter_empty_conv list_all_iff)

lemma main_cases:
  obtains (no_event) ps where "list_all is_progress_line ps"
      "main env = (Print (Fetching_Event slug) # Http_Get (events_url slug) [] # ps
                     @ [Print No_Events_Found], Inr ())"
  | (event) ps ev where "list_all is_progress_line ps"
      "main env = emit (Print (Fetching_Event slug) # Http_Get (events_url slug) [] # ps)
                    (main_event env ev)"
proof -
  obtain ps events where g: "get_event_data env slug = (Http_Get (events_url slug) [] # ps, Inr events)"
    and ps: "list_all is_progress_line ps"
    using get_event_data_cases by blast
  show thesis
  proof (cases "truthy events")
    case False
    then show thesis using g ps main_no_event[of env events] no_event by simp
  next
    case True
    then show thesis using g ps main_resolved[of env events] event by auto
  qed
qed

subsection \<open>The example runs, evaluated\<close>

lemma sample_run:
  "main sample_env =
     ([Print (Fetching_Event slug), Http_Get (events_url slug) [],
       Print (Found_Markets 3), Makedirs ''public/data'',
       Dump ''public/data/event.json'' (Some 2) (event_of [market_a, market_b, market_c]),
       Print (Processing (JStr ''Will A win?'')),
       Http_Get history_url (history_params (JStr ''t1'') 1998790400),
       Print (Fetched_Points 2),
       Dump ''public/data/history_m1.json'' None sample_history,
       Print (Processing (JStr ''Will B win?'')), Print No_ClobTokenIds,
       Print (Processing (JStr ''Will C win?'')),
       Http_Get history_url (history_params (JStr ''t5'') 1998790401),
       Print (Fetched_Points 2),
       Dump ''public/data/history_m3.json'' None sample_history,
       Dump ''public/data/summary.json'' (Some 2)
         (JArr [stat_entry (JStr ''m1'') (JStr ''Will A win?'') (JStr ''t1'') 2 (JInt 500),
                stat_entry (JStr ''m3'') (JStr ''Will C win?'') (JStr ''t5'') 2 (JInt 700)])],
      Inr ())"
  by (simp add: run_defs)

lemma without_id_run:
  "main env_without_id =
     ([Print (Fetching_Event slug), Http_Get (events_url slug) [],
       Print (Found_Markets 1), Makedirs ''public/data'',
       Dump ''public/data/event.json'' (Some 2) (event_of [market_without_id]),
       Print (Processing (JStr ''Will D win?'')),
       Http_Get history_url (history_params (JStr ''t7'') 1998790400),
       Print (Fetched_Points 2)],
      Inl KeyError)"
  by (simp add: run_defs)

lemma numeric_tokens_run:
  "main env_numeric_tokens =
     ([Print (Fetching_Event slug), Http_Get (events_url slug) [],
       Print (Found_Markets 1), Makedirs ''public/data'',
       Dump ''public/data/event.json'' (Some 2) (event_of [market_numeric_tokens]),
       Print (Processing (JStr ''''))],
      Inl TypeError)"
  by (simp add: run_defs)

lemma sample_env_fields:
  "gamma_api sample_env url = Response 200 (Some (event_of [market_a, market_b, market_c]))"
  "clob_api sample_env k params = Response 200 (Some sample_history)"
  "clock sample_env k = 2000000000 + of_nat k"
  "json_loads sample_env = sample_loads"
  "format sample_env = sample_format"
  "open_w sample_env = sample_open"
  by (simp_all add: sample_env_def serving_def)

lemma slash_id_run:
  "main env_slash_id =
     ([Print (Fetching_Event slug), Http_Get (events_url slug) [],
       Print (Found_Markets 1), Makedirs ''public/data'',
       Dump ''public/data/event.json'' (Some 2) (event_of [market_slash_id]),
       Print (Processing (JStr ''Will F win?'')),
       Http_Get history_url (history_params (JStr ''t8'') 1998790400),
       Print (Fetched_Points 2)],
      Inl FileNotFoundError)"
  by (simp add: run_defs market_slash_id_def env_slash_id_def)

lemma encoded_env_fields:
  "gamma_api env_encoded url = Response 200 (Some (JArr [event_of [market_e, market_b, market_a]]))"
  "clob_api env_encoded k params = Response 200 (Some sample_history)"
  "json_loads env_encoded = sample_loads"
  "format env_encoded = sample_format"
  "open_w env_encoded = sample_open"
  by (simp_all add: env_encoded_def serving_def)

lemmas vocabulary_defs = wf_market_def has_tokens_def first_token_def token_ids_def
  fetched_history_def history_points_def market_history_file_def history_filename_def
  sample_loads_def sample_format_def sample_open_def sample_history_def

lemma encoded_markets:
  "list_all (wf_market env_encoded) [market_e, market_b, market_a]"
  "has_tokens env_encoded market_e"
  "\<not> has_tokens env_encoded market_b"
  "has_tokens env_encoded market_a"
  "first_token env_encoded market_e = Some (JInt 101)"
  "first_token env_encoded market_a = Some (JStr ''t1'')"
  "fetched_history env_encoded k market_e =
     Some [JObj [(''t'', JInt 1), (''p'', JFloat (1 / 2))],
           JObj [(''t'', JInt 2), (''p'', JFloat (3 / 5))]]"
  "fetched_history env_encoded k market_a =
     Some [JObj [(''t'', JInt 1), (''p'', JFloat (1 / 2))],
           JObj [(''t'', JInt 2), (''p'', JFloat (3 / 5))]]"
  "open_w env_encoded (market_history_file env_encoded market_e) = None"
  "open_w env_encoded (market_history_file env_encoded market_a) = None"
  by (simp_all add: vocabulary_defs encoded_env_fields market_e_def market_b_def market_a_def)

lemma slash_id_market:
  "wf_market env_slash_id market_slash_id"
  "has_tokens env_slash_id market_slash_id"
  "fetched_history env_slash_id 0 market_slash_id \<noteq> None"
  "open_w env_slash_id (market_history_file env_slash_id market_slash_id) = Some FileNotFoundError"
  by (simp_all add: vocabulary_defs env_slash_id_def serving_def market_slash_id_def)

lemma encoded_run:
  "main env_encoded =
     ([Print (Fetching_Event slug), Http_Get (events_url slug) [],
       Print (Found_Markets 3), Makedirs ''public/data'',
       Dump ''public/data/event.json'' (Some 2) (event_of [market_e, market_b, market_a]),
       Print (Processing (JStr ''Will E win?'')),
       Http_Get history_url (history_params (JInt 101) 1998790400),
       Print (Fetched_Points 2),
       Dump ''public/data/history_m5.json'' None sample_history,
       Print (Processing (JStr ''Will B win?'')), Print No_ClobTokenIds,
       Print (Processing (JStr ''Will A win?'')),
       Http_Get history_url (history_params (JStr ''t1'') 1998790401),
       Print (Fetched_Points 2),
       Dump ''public/data/history_m1.json'' None sample_history,
       Dump ''public/data/summary.json'' (Some 2)
         (JArr [stat_entry (JStr ''m5'') (JStr ''Will E win?'') (JInt 101) 2 (JInt 300),
                stat_entry (JStr ''m1'') (JStr ''Will A win?'') (JStr ''t1'') 2 (JInt 500)])],
      Inr ())"
  by (simp add: run_defs market_e_def env_encoded_def)

lemma market_loop_lengths:
  assumes "snd (market_loop env ms st) = Inr st'"
  shows "\<exists>new. stats st' = stats st @ new
           \<and> length new = length (dumps (fst (market_loop env ms st)))"
proof -
  from market_loop_dumps[of ms env st] obtain ms' where
    d: "map (\<lambda>d. (fst d, fst (snd d))) (dumps (fst (market_loop env ms st))) =
       map (\<lambda>m. (market_history_file env m, None)) ms'"
    and s: "\<forall>st'. snd (market_loop env ms st) = Inr st' \<longrightarrow>
           (\<exists>new. stats st' = stats st @ new \<and> list_all2 (entry_of_market env) new ms')"
    by blast
  from s assms obtain new where n: "stats st' = stats st @ new"
    "list_all2 (entry_of_market env) new ms'" by blast
  have "length (dumps (fst (market_loop env ms st))) = length ms'"
    using arg_cong[OF d, of length] by simp
  with n show ?thesis by (auto dest: list_all2_lengthD)
qed

lemma yes_token_obj:
  assumes "yes_token env (JObj kvs) = Inr tok"
  shows "truthy (normalise_tokens env (case map_of kvs ''clobTokenIds'' of None \<Rightarrow> JArr [] | Some v \<Rightarrow> v))"
    and "py_first (normalise_tokens env (case map_of kvs ''clobTokenIds'' of None \<Rightarrow> JArr [] | Some v \<Rightarrow> v)) = Inr tok"
proof -
  let ?t = "normalise_tokens env (case map_of kvs ''clobTokenIds'' of None \<Rightarrow> JArr [] | Some v \<Rightarrow> v)"
  show f: "py_first ?t = Inr tok" using assms by (simp add: yes_token_def)
  then show "truthy ?t" by (cases ?t rule: py_first.cases) simp_all
qed

lemma history_points_reply:
  assumes "history_points r = Some pts"
  obtains hk where "r = Response 200 (Some (JObj hk))" "map_of hk ''history'' = Some (JArr pts)"
  using assms
  by (auto simp add: history_points_def split: http_result.splits if_splits option.splits json.splits)

lemma get_price_history_valid:
  assumes "clob_api env k (history_params tok ts) = Response 200 (Some j)"
  shows "get_price_history env k tok ts = ([Http_Get history_url (history_params tok ts)], Inr j)"
  using assms by (simp add: get_price_history_def emit_def ret_def)

lemma get_price_history_none:
  assumes "no_history_reply (clob_api env k (history_params tok ts))"
  shows "\<exists>ps j. get_price_history env k tok ts =
            (Http_Get history_url (history_params tok ts) # ps, Inr j)
          \<and> list_all is_progress_line ps \<and> has_history j = Inr False"
  using assms
  by (auto simp add: no_history_reply_def get_price_history_def emit_def ret_def has_history_def
        split: http_result.splits option.splits)

lemma process_market_valid:
  assumes tok: "yes_token env (JObj kvs) = Inr tok"
    and pts: "market_history env (fetches st) (JObj kvs) = Some pts"
  shows "process_market env (JObj kvs) st =
    (case map_of kvs ''id'' of
       None \<Rightarrow>
         ([Print (Processing (case map_of kvs ''question'' of None \<Rightarrow> JStr '''' | Some v \<Rightarrow> v)),
           Http_Get history_url (history_params tok (start_ts_at env (fetches st))),
           Print (Fetched_Points (length pts))], Inl KeyError)
     | Some mid \<Rightarrow>
         (case open_w env (history_filename env mid) of
            Some e \<Rightarrow>
              ([Print (Processing (case map_of kvs ''question'' of None \<Rightarrow> JStr '''' | Some v \<Rightarrow> v)),
                Http_Get history_url (history_params tok (start_ts_at env (fetches st))),
                Print (Fetched_Points (length pts))], Inl e)
          | None \<Rightarrow>
              ([Print (Processing (case map_of kvs ''question'' of None \<Rightarrow> JStr '''' | Some v \<Rightarrow> v)),
                Http_Get history_url (history_params tok (start_ts_at env (fetches st))),
                Print (Fetched_Points (length pts)),
                Dump (history_filename env mid) None
                  (case clob_api env (fetches st) (history_params tok (start_ts_at env (fetches st))) of
                     Response c (Some j) \<Rightarrow> j | _ \<Rightarrow> JNull)],
               Inr \<lparr>stats = stats st @
                       [stat_entry mid (case map_of kvs ''question'' of None \<Rightarrow> JStr '''' | Some v \<Rightarrow> v)
                          tok (length pts) (case map_of kvs ''volume'' of None \<Rightarrow> JInt 0 | Some v \<Rightarrow> v)],
                    fetches = Suc (fetches st)\<rparr>)))"
proof -
  from pts tok have "history_points (clob_api env (fetches st)
        (history_params tok (start_ts_at env (fetches st)))) = Some pts"
    by (simp add: market_history_def)
  then obtain hk where r: "clob_api env (fetches st)
        (history_params tok (start_ts_at env (fetches st))) = Response 200 (Some (JObj hk))"
    and hk: "map_of hk ''history'' = Some (JArr pts)"
    by (rule history_points_reply)
  have ne: "hk \<noteq> []" using hk by auto
  note g = get_price_history_valid[OF r]
  note y = yes_token_obj[OF tok]
  show ?thesis
    using y g hk ne r
    by (simp add: process_market_def store_history_def has_history_def py_open_def bind_Inr)
       (simp add: emit_def ret_def split: option.splits)
qed

lemma process_market_no_history:
  assumes tok: "yes_token env (JObj kvs) = Inr tok"
    and r: "no_history_reply (clob_api env (fetches st)
              (history_params tok (start_ts_at env (fetches st))))"
  shows "snd (process_market env (JObj kvs) st) = Inr (st\<lparr>fetches := Suc (fetches st)\<rparr>)"
    and "dumps (fst (process_market env (JObj kvs) st)) = []"
proof -
  from get_price_history_none[OF r] obtain ps j where
    g: "get_price_history env (fetches st) tok (start_ts_at env (fetches st)) =
            (Http_Get history_url (history_params tok (start_ts_at env (fetches st))) # ps, Inr j)"
    and ps: "list_all is_progress_line ps" and h: "has_history j = Inr False"
    by blast
  note y = yes_token_obj[OF tok]
  have p: "process_market env (JObj kvs) st =
      (Print (Processing (case map_of kvs ''question'' of None \<Rightarrow> JStr '''' | Some v \<Rightarrow> v)) #
       Http_Get history_url (history_params tok (start_ts_at env (fetches st))) # ps
       @ [Print No_History], Inr (st\<lparr>fetches := Suc (fetches st)\<rparr>))"
    using y g h
    by (simp add: process_market_def store_history_def bind_Inr)
       (simp add: emit_def ret_def)
  show "snd (process_market env (JObj kvs) st) = Inr (st\<lparr>fetches := Suc (fetches st)\<rparr>)"
    by (simp add: p)
  show "dumps (fst (process_market env (JObj kvs) st)) = []"
    using ps by (simp add: p quiet_dumps)
qed

lemma wf_market_obj:
  assumes "wf_market env m"
  obtains kvs mid ts where "m = JObj kvs" "map_of kvs ''id'' = Some mid"
    "normalise_tokens env (case map_of kvs ''clobTokenIds'' of None \<Rightarrow> JArr [] | Some v \<Rightarrow> v) = JArr ts"
    "token_ids env m = Some ts"
proof -
  from assms obtain kvs where m: "m = JObj kvs"
    by (cases m) (auto simp add: wf_market_def)
  from assms m obtain mid where mid: "map_of kvs ''id'' = Some mid"
    by (auto simp add: wf_market_def)
  from assms m obtain ts where ts: "token_ids env m = Some ts"
    by (auto simp add: wf_market_def)
  then have n: "normalise_tokens env (case map_of kvs ''clobTokenIds'' of None \<Rightarrow> JArr [] | Some v \<Rightarrow> v) = JArr ts"
    using m
    by (auto simp add: token_ids_def normalise_tokens_def split: option.splits json.splits)
  from m mid n ts show thesis by (rule that)
qed

lemma process_market_wf_skip:
  assumes "wf_market env m" "\<not> has_tokens env m"
  shows "snd (process_market env m st) = Inr st"
proof -
  from assms(1) obtain kvs mid ts where m: "m = JObj kvs"
    and n: "normalise_tokens env (case map_of kvs ''clobTokenIds'' of None \<Rightarrow> JArr [] | Some v \<Rightarrow> v) = JArr ts"
    and t: "token_ids env m = Some ts"
    by (rule wf_market_obj)
  from assms(2) t have "ts = []" by (cases ts) (simp_all add: has_tokens_def)
  with m n show ?thesis by (simp add: process_market_def)
qed

lemma process_market_wf_stored:
  assumes "wf_market env m" "has_tokens env m" "fetched_history env (fetches st) m \<noteq> None"
    and "open_w env (market_history_file env m) = None"
  shows "\<exists>e. snd (process_market env m st) = Inr \<lparr>stats = stats st @ [e], fetches = Suc (fetches st)\<rparr>
             \<and> points_entry env (fetches st) m e"
proof -
  from assms(1) obtain kvs mid ts where m: "m = JObj kvs"
    and mid: "map_of kvs ''id'' = Some mid"
    and n: "normalise_tokens env (case map_of kvs ''clobTokenIds'' of None \<Rightarrow> JArr [] | Some v \<Rightarrow> v) = JArr ts"
    and t: "token_ids env m = Some ts"
    by (rule wf_market_obj)
  from assms(2) t obtain tok rest where ts: "ts = tok # rest"
    by (cases ts) (simp_all add: has_tokens_def)
  have y: "yes_token env (JObj kvs) = Inr tok"
    using n ts by (simp add: yes_token_def)
  have f: "first_token env m = Some tok"
    using t ts by (simp add: first_token_def)
  from assms(3) obtain pts where fh: "fetched_history env (fetches st) m = Some pts"
    by auto
  then have pts: "market_history env (fetches st) (JObj kvs) = Some pts"
    using f y by (simp add: fetched_history_def market_history_def)
  have o: "open_w env (history_filename env mid) = None"
    using assms(4) m mid by (simp add: market_history_file_def)
  let ?e = "stat_entry mid (case map_of kvs ''question'' of None \<Rightarrow> JStr '''' | Some v \<Rightarrow> v)
                     tok (length pts) (case map_of kvs ''volume'' of None \<Rightarrow> JInt 0 | Some v \<Rightarrow> v)"
  have "snd (process_market env m st) = Inr \<lparr>stats = stats st @ [?e], fetches = Suc (fetches st)\<rparr>"
    using process_market_valid[OF y pts] mid m o by simp
  moreover have "points_entry env (fetches st) m ?e"
    using fh f m mid by (simp add: points_entry_def stat_entry_fields)
  ultimately show ?thesis by blast
qed

lemma market_loop_wf:
  assumes "list_all (wf_market env) ms"
    and "\<forall>j<length (filter (has_tokens env) ms).
           fetched_history env (fetches st + j) (filter (has_tokens env) ms ! j) \<noteq> None"
    and "\<forall>m\<in>set (filter (has_tokens env) ms). open_w env (market_history_file env m) = None"
  shows "\<exists>new. snd (market_loop env ms st) =
                  Inr \<lparr>stats = stats st @ new,
                       fetches = fetches st + length (filter (has_tokens env) ms)\<rparr>
           \<and> length new = length (filter (has_tokens env) ms)
           \<and> (\<forall>j<length new. points_entry env (fetches st + j)
                                (filter (has_tokens env) ms ! j) (new ! j))"
  using assms
proof (induction ms arbitrary: st)
  case Nil
  show ?case by simp
next
  case (Cons m ms)
  from Cons.prems(1) have wm: "wf_market env m" and wms: "list_all (wf_market env) ms" by simp_all
  from Cons.prems(3)
  have oms: "\<forall>m\<in>set (filter (has_tokens env) ms). open_w env (market_history_file env m) = None"
    by simp
  show ?case
  proof (cases "has_tokens env m")
    case False
    have p: "snd (process_market env m st) = Inr st"
      using wm False by (rule process_market_wf_skip)
    from Cons.prems(2) False
    have "\<forall>j<length (filter (has_tokens env) ms).
           fetched_history env (fetches st + j) (filter (has_tokens env) ms ! j) \<noteq> None"
      by simp
    from Cons.IH[OF wms this oms] show ?thesis
      using False by (simp add: market_loop_Cons_Inr[OF p])
  next
    case True
    let ?q = "filter (has_tokens env) ms"
    from Cons.prems(2) True have h0: "fetched_history env (fetches st) m \<noteq> None"
      by (auto dest: spec[of _ 0])
    from Cons.prems(3) True have o0: "open_w env (market_history_file env m) = None"
      by simp
    from process_market_wf_stored[OF wm True h0 o0] obtain e where
      p: "snd (process_market env m st) = Inr \<lparr>stats = stats st @ [e], fetches = Suc (fetches st)\<rparr>"
      and e: "points_entry env (fetches st) m e" by blast
    let ?st = "\<lparr>stats = stats st @ [e], fetches = Suc (fetches st)\<rparr>"
    have "fetched_history env (fetches ?st + j) (?q ! j) \<noteq> None" if "j < length ?q" for j
      using Cons.prems(2) True that by (auto dest: spec[of _ "Suc j"])
    then have "\<forall>j<length ?q. fetched_history env (fetches ?st + j) (?q ! j) \<noteq> None" by blast
    from Cons.IH[OF wms this oms] obtain new where
      l: "snd (market_loop env ms ?st) =
            Inr \<lparr>stats = stats ?st @ new, fetches = fetches ?st + length ?q\<rparr>"
      and len: "length new = length ?q"
      and pe: "\<forall>j<length new. points_entry env (fetches ?st + j) (?q ! j) (new ! j)"
      by blast
    have "points_entry env (fetches st + j) (filter (has_tokens env) (m # ms) ! j) ((e # new) ! j)"
      if "j < length (e # new)" for j
    proof (cases j)
      case 0
      then show ?thesis using e True by simp
    next
      case (Suc i)
      then show ?thesis using pe that True by simp
    qed
    then show ?thesis
      using l len True
      by (intro exI[of _ "e # new"]) (simp add: market_loop_Cons_Inr[OF p])
  qed
qed

section \<open>The claims\<close>

text \<open>
  C1, as amended. Let the metadata service answer with a well-formed event (an object, or an
  array whose first element is one, with a \<^verbatim>\<open>markets\<close> array of well-formed markets), at
  least one market having a non-empty token list; let the time-series service return a
  valid history payload for each market with a non-empty token list, when its turn comes;
  and let the history file of each such market open for writing. Then the run returns
  normally and writes to \<^verbatim>\<open>summary.json\<close> a list with exactly one entry per such market, in
  order; the entry of the \<open>j\<close>-th such market carries that market's \<^verbatim>\<open>id\<close> and first token,
  and its \<^verbatim>\<open>points\<close> is the length of the \<^verbatim>\<open>history\<close> array returned for that market.
\<close>

theorem summary_counts_points:
  assumes "gamma_api env (events_url slug) = Response 200 (Some events)"
    and "events = JObj kvs \<or> (\<exists>rest. events = JArr (JObj kvs # rest))"
    and "map_of kvs ''markets'' = Some (JArr ms)"
    and "list_all (wf_market env) ms"
    and "\<exists>m\<in>set ms. has_tokens env m"
    and "\<forall>j<length (filter (has_tokens env) ms).
           fetched_history env j (filter (has_tokens env) ms ! j) \<noteq> None"
    and "\<forall>m\<in>set (filter (has_tokens env) ms). open_w env (market_history_file env m) = None"
  shows "\<exists>summary. snd (main env) = Inr ()
           \<and> file_writes ''public/data/summary.json'' (fst (main env)) = [(Some 2, JArr summary)]
           \<and> length summary = length (filter (has_tokens env) ms)
           \<and> (\<forall>j<length summary.
                 points_entry env j (filter (has_tokens env) ms ! j) (summary ! j))"
proof -
  let ?init = "\<lparr>stats = [], fetches = 0\<rparr>"
  let ?l = "market_loop env ms ?init"
  have g: "get_event_data env slug = ([Http_Get (events_url slug) []], Inr events)"
    using assms(1) by (rule get_event_data_ok)
  have t: "truthy events" using assms(2,3) by auto
  have m: "main env =
    emit (Print (Fetching_Event slug) # fst (get_event_data env slug)) (main_event env (JObj kvs))"
    using g t assms(2) by (intro main_with_event[of env events]) simp_all
  have mk: "py_get (JObj kvs) ''markets'' (JArr []) = Inr (JArr ms)"
    using assms(3) by simp
  note sh = main_event_shape[OF mk, of "length ms" ms env, simplified]
  from market_loop_wf[of env ms ?init] assms(4,6,7) obtain new where
    l: "snd ?l = Inr \<lparr>stats = new, fetches = length (filter (has_tokens env) ms)\<rparr>"
    and len: "length new = length (filter (has_tokens env) ms)"
    and pe: "\<forall>j<length new. points_entry env j (filter (has_tokens env) ms ! j) (new ! j)"
    by auto
  have "snd (main env) = Inr ()" using m sh(2) l by simp
  moreover have "file_writes ''public/data/summary.json'' (fst (main env)) = [(Some 2, JArr new)]"
    using m sh(1) l g by (simp add: market_loop_writes)
  ultimately show ?thesis using len pe by (intro exI[of _ new] conjI)
qed

text \<open>
  A run on an event that arrives in an array: the first market has its token list encoded
  as a string, the second has the list \<^verbatim>\<open>"[]"\<close>, the third a native list.
\<close>

theorem summary_counts_points_witness:
  "list_all (wf_market env_encoded) [market_e, market_b, market_a]
   \<and> filter (has_tokens env_encoded) [market_e, market_b, market_a] = [market_e, market_a]
   \<and> fetched_history env_encoded 0 market_e \<noteq> None
   \<and> fetched_history env_encoded 1 market_a \<noteq> None
   \<and> open_w env_encoded (market_history_file env_encoded market_e) = None
   \<and> open_w env_encoded (market_history_file env_encoded market_a) = None
   \<and> file_writes ''public/data/summary.json'' (fst (main env_encoded)) =
       [(Some 2, JArr [stat_entry (JStr ''m5'') (JStr ''Will E win?'') (JInt 101) 2 (JInt 300),
                       stat_entry (JStr ''m1'') (JStr ''Will A win?'') (JStr ''t1'') 2 (JInt 500)])]
   \<and> (\<exists>summary. snd (main env_encoded) = Inr ()
         \<and> file_writes ''public/data/summary.json'' (fst (main env_encoded)) =
             [(Some 2, JArr summary)]
         \<and> length summary = 2
         \<and> points_entry env_encoded 0 market_e (summary ! 0)
         \<and> points_entry env_encoded 1 market_a (summary ! 1))"
proof -
  have g: "gamma_api env_encoded (events_url slug) =
             Response 200 (Some (JArr [event_of [market_e, market_b, market_a]]))"
    by (simp add: encoded_env_fields)
  have s: "JArr [event_of [market_e, market_b, market_a]] =
             JObj [(''slug'', JStr slug), (''markets'', JArr [market_e, market_b, market_a])]
           \<or> (\<exists>rest. JArr [event_of [market_e, market_b, market_a]] =
                 JArr (JObj [(''slug'', JStr slug),
                             (''markets'', JArr [market_e, market_b, market_a])] # rest))"
    by (simp add: event_of_def)
  have k: "map_of [(''slug'', JStr slug), (''markets'', JArr [market_e, market_b, market_a])]
             ''markets'' = Some (JArr [market_e, market_b, market_a])"
    by simp
  have f: "filter (has_tokens env_encoded) [market_e, market_b, market_a] = [market_e, market_a]"
    by (simp add: encoded_markets)
  have e: "\<exists>m\<in>set [market_e, market_b, market_a]. has_tokens env_encoded m"
    by (simp add: encoded_markets)
  have h: "\<forall>j<length (filter (has_tokens env_encoded) [market_e, market_b, market_a]).
             fetched_history env_encoded j
               (filter (has_tokens env_encoded) [market_e, market_b, market_a] ! j) \<noteq> None"
    by (simp add: encoded_markets All_less_Suc)
  have o: "\<forall>m\<in>set (filter (has_tokens env_encoded) [market_e, market_b, market_a]).
             open_w env_encoded (market_history_file env_encoded m) = None"
    by (simp add: encoded_markets)
  from summary_counts_points[OF g s k encoded_markets(1) e h o] obtain summary where
    r: "snd (main env_encoded) = Inr ()"
    and w: "file_writes ''public/data/summary.json'' (fst (main env_encoded)) =
              [(Some 2, JArr summary)]"
    and len: "length summary = length (filter (has_tokens env_encoded) [market_e, market_b, market_a])"
    and pe: "\<forall>j<length summary. points_entry env_encoded j
               (filter (has_tokens env_encoded) [market_e, market_b, market_a] ! j) (summary ! j)"
    by (elim exE conjE)
  have l2: "length summary = 2" using len by (simp only: f) simp
  have p0: "points_entry env_encoded 0 market_e (summary ! 0)"
    using pe[rule_format, of 0] l2 by (simp only: f) simp
  have p1: "points_entry env_encoded 1 market_a (summary ! 1)"
    using pe[rule_format, of 1] l2 by (simp only: f) simp
  from r w l2 p0 p1 have x: "\<exists>summary. snd (main env_encoded) = Inr ()
         \<and> file_writes ''public/data/summary.json'' (fst (main env_encoded)) =
             [(Some 2, JArr summary)]
         \<and> length summary = 2
         \<and> points_entry env_encoded 0 market_e (summary ! 0)
         \<and> points_entry env_encoded 1 market_a (summary ! 1)"
    by (intro exI[of _ summary] conjI)
  have run: "file_writes ''public/data/summary.json'' (fst (main env_encoded)) =
       [(Some 2, JArr [stat_entry (JStr ''m5'') (JStr ''Will E win?'') (JInt 101) 2 (JInt 300),
                       stat_entry (JStr ''m1'') (JStr ''Will A win?'') (JStr ''t1'') 2 (JInt 500)])]"
    by (simp add: encoded_run)
  have h0: "fetched_history env_encoded 0 market_e \<noteq> None"
    and h1: "fetched_history env_encoded 1 market_a \<noteq> None"
    by (simp_all add: encoded_markets)
  from encoded_markets(1) f h0 h1 encoded_markets(9) encoded_markets(10) run x
  show ?thesis by (intro conjI)
qed

text \<open>
  The claim as written fails on a well-formed event whose market has the \<^verbatim>\<open>id\<close>
  \<^verbatim>\<open>a/b\<close>: the payload is valid, but \<^verbatim>\<open>public/data/history_a/b.json\<close> lies in a directory
  that does not exist, \<^verbatim>\<open>open\<close> raises, and the run ends before \<^verbatim>\<open>summary.json\<close> is
  written.
\<close>

theorem unopenable_history_counterexample:
  "gamma_api env_slash_id (events_url slug) = Response 200 (Some (event_of [market_slash_id]))
   \<and> wf_market env_slash_id market_slash_id
   \<and> has_tokens env_slash_id market_slash_id
   \<and> fetched_history env_slash_id 0 market_slash_id \<noteq> None
   \<and> snd (main env_slash_id) = Inl FileNotFoundError
   \<and> file_writes ''public/data/summary.json'' (fst (main env_slash_id)) = []"
  by (simp add: slash_id_run slash_id_market) (simp add: env_slash_id_def serving_def)

text \<open>
  C2, as amended. The start timestamp is not computed once per run: each market that reaches
  the fetch reads the clock anew, and the \<open>k\<close>-th request of a run carries the whole second
  of the \<open>k\<close>-th clock reading minus 14 days (1209600 seconds). Two markets of one run get
  the same \<^verbatim>\<open>startTs\<close> only if the clock shows the same second at both fetches.
\<close>

theorem start_ts_read_per_fetch:
  "start_timestamps (fst (main env)) =
     map (\<lambda>k. py_int (clock env k) - 1209600)
       [0 ..< length (start_timestamps (fst (main env)))]"
proof -
  obtain ps events where g: "get_event_data env slug = (Http_Get (events_url slug) [] # ps, Inr events)"
    and ps: "list_all is_progress_line ps"
    using get_event_data_cases by blast
  have q: "start_timestamps ps = []" using ps by (rule quiet_stamps)
  have s: "start_ts_at env = (\<lambda>k. py_int (clock env k) - 1209600)"
    by (rule ext) (simp add: start_ts_at_def)
  have "start_timestamps (fst (main env)) =
     map (start_ts_at env) [0 ..< length (start_timestamps (fst (main env)))]"
  proof (cases "truthy events")
    case False
    then show ?thesis using g q main_no_event[of env events] by simp
  next
    case True
    have "\<exists>ev. main env = emit (Print (Fetching_Event slug) # Http_Get (events_url slug) [] # ps)
                  (main_event env ev)"
      using True g main_resolved[of env events] by simp
    then obtain ev where "main env =
        emit (Print (Fetching_Event slug) # Http_Get (events_url slug) [] # ps) (main_event env ev)"
      by blast
    then show ?thesis using q main_event_stamps[of env ev] by simp
  qed
  then show ?thesis by (simp only: s)
qed

text \<open>A run with one market.\<close>

theorem start_ts_read_per_fetch_witness:
  "start_timestamps (fst (main (serving (Response 200 (Some (event_of [market_a])))))) =
     [py_int (clock (serving (Response 200 (Some (event_of [market_a])))) 0) - 1209600]"
  using start_ts_read_per_fetch[of "serving (Response 200 (Some (event_of [market_a])))"]
  by (simp add: run_defs)

text \<open>
  The claim as written fails on the example run, where the clock advances by one second
  between the two fetches: the two requests carry different \<^verbatim>\<open>startTs\<close> values.
\<close>

theorem start_ts_differs_counterexample:
  "start_timestamps (fst (main sample_env)) = [1998790400, 1998790401]"
  by (simp add: sample_run history_params_def)

text \<open>
  C3, as amended. \<^verbatim>\<open>summary.json\<close> and \<^verbatim>\<open>event.json\<close> are both written pretty-printed
  (\<^verbatim>\<open>indent=2\<close>); only the history files \<^verbatim>\<open>history_<market_id>.json\<close> are written in the
  compact encoding.
\<close>

theorem dump_encodings:
  "written_pretty ''public/data/summary.json'' (fst (main env))
   \<and> written_pretty ''public/data/event.json'' (fst (main env))
   \<and> written_compact (history_filename env market_id) (fst (main env))"
proof (cases rule: main_cases[of env])
  case (no_event ps)
  then show ?thesis
    by (simp add: written_pretty_def written_compact_def quiet_file_writes)
next
  case (event ps ev)
  show ?thesis
  proof (cases rule: main_event_cases[of env ev])
    case (failed e)
    with event show ?thesis
      by (simp add: written_pretty_def written_compact_def quiet_file_writes)
  next
    case (ran markets n ms)
    note sh = main_event_shape[OF ran, of env]
    show ?thesis
      using event market_loop_writes[where env=env and ms=ms and st="\<lparr>stats = [], fetches = 0\<rparr>"]
      by (simp add: written_pretty_def written_compact_def quiet_file_writes sh
            split: sum.splits)
  qed
qed

text \<open>The files of the example run.\<close>

theorem dump_encodings_witness:
  "file_writes ''public/data/summary.json'' (fst (main sample_env)) \<noteq> []
   \<and> written_pretty ''public/data/summary.json'' (fst (main sample_env))
   \<and> file_writes (history_filename sample_env (JStr ''m1'')) (fst (main sample_env)) = [(None, sample_history)]
   \<and> written_compact (history_filename sample_env (JStr ''m1'')) (fst (main sample_env))"
  using dump_encodings[of sample_env "JStr ''m1''"]
  by (simp add: sample_run written_pretty_def written_compact_def history_filename_def
        sample_env_fields sample_format_def)

text \<open>
  The claim as written fails on \<^verbatim>\<open>event.json\<close>, which the example run writes with
  \<^verbatim>\<open>indent=2\<close>.
\<close>

theorem event_json_pretty_counterexample:
  "file_writes ''public/data/event.json'' (fst (main sample_env)) =
     [(Some 2, event_of [market_a, market_b, market_c])]
   \<and> \<not> written_compact ''public/data/event.json'' (fst (main sample_env))"
  by (simp add: sample_run written_compact_def)

text \<open>
  C4. If the metadata service returns an empty array, the run prints its two lines and
  \<^verbatim>\<open>No events found.\<close>, returns normally, and writes no file: no \<^verbatim>\<open>event.json\<close>, no history
  file, no \<^verbatim>\<open>summary.json\<close>.
\<close>

theorem empty_array_creates_nothing:
  assumes "gamma_api env (events_url slug) = Response 200 (Some (JArr []))"
  shows "main env = ([Print (Fetching_Event slug), Http_Get (events_url slug) [],
                      Print No_Events_Found], Inr ())
         \<and> dumps (fst (main env)) = []"
proof -
  have g: "get_event_data env slug = ([Http_Get (events_url slug) []], Inr (JArr []))"
    using assms by (rule get_event_data_ok)
  then have "main env = ([Print (Fetching_Event slug), Http_Get (events_url slug) [],
                      Print No_Events_Found], Inr ())"
    using main_no_event[of env "JArr []"] by simp
  then show ?thesis by simp
qed

text \<open>The run on the empty array.\<close>

theorem empty_array_creates_nothing_witness:
  "gamma_api (serving (Response 200 (Some (JArr [])))) (events_url slug) = Response 200 (Some (JArr []))
   \<and> snd (main (serving (Response 200 (Some (JArr []))))) = Inr ()
   \<and> dumps (fst (main (serving (Response 200 (Some (JArr [])))))) = []"
  using empty_array_creates_nothing[of "serving (Response 200 (Some (JArr [])))"]
  by (simp add: serving_def)

text \<open>
  C5. A market whose \<^verbatim>\<open>clobTokenIds\<close> is a string that \<^verbatim>\<open>json.loads\<close> rejects, or the string
  \<^verbatim>\<open>"[]"\<close> (which \<^verbatim>\<open>json.loads\<close> decodes to the empty list), has the empty token list; its pass
  through the loop body prints two lines, writes no file, leaves \<^verbatim>\<open>stats\<close> and the loop state
  as they were, and the loop goes on with the remaining markets from that same state.
\<close>

theorem unparseable_tokens_skipped:
  assumes "map_of kvs ''clobTokenIds'' = Some (JStr s)"
    and "json_loads env s = None \<or> (s = ''[]'' \<and> json_loads env ''[]'' = Some (JArr []))"
  shows "normalise_tokens env (JStr s) = JArr []
    \<and> process_market env (JObj kvs) st =
        ([Print (Processing (case map_of kvs ''question'' of None \<Rightarrow> JStr '''' | Some v \<Rightarrow> v)),
          Print No_ClobTokenIds], Inr st)
    \<and> market_loop env (JObj kvs # rest) st =
        emit [Print (Processing (case map_of kvs ''question'' of None \<Rightarrow> JStr '''' | Some v \<Rightarrow> v)),
              Print No_ClobTokenIds] (market_loop env rest st)"
proof -
  have n: "normalise_tokens env (JStr s) = JArr []"
    using assms(2) by (auto simp add: normalise_tokens_def)
  have p: "process_market env (JObj kvs) st =
        ([Print (Processing (case map_of kvs ''question'' of None \<Rightarrow> JStr '''' | Some v \<Rightarrow> v)),
          Print No_ClobTokenIds], Inr st)"
    using assms(1) n by (simp add: process_market_def emit_def ret_def)
  show ?thesis using n p by (simp add: market_loop.simps(2) bind_Inr)
qed

text \<open>The second market of the example, and a market with an undecodable string.\<close>

theorem unparseable_tokens_skipped_witness:
  "process_market sample_env market_b \<lparr>stats = [], fetches = 0\<rparr> =
     ([Print (Processing (JStr ''Will B win?'')), Print No_ClobTokenIds],
      Inr \<lparr>stats = [], fetches = 0\<rparr>)
   \<and> market_loop sample_env [market_b, market_c] \<lparr>stats = [], fetches = 0\<rparr> =
       emit [Print (Processing (JStr ''Will B win?'')), Print No_ClobTokenIds]
         (market_loop sample_env [market_c] \<lparr>stats = [], fetches = 0\<rparr>)
   \<and> json_loads sample_env ''not json'' = None
   \<and> process_market sample_env (JObj [(''clobTokenIds'', JStr ''not json'')]) \<lparr>stats = [], fetches = 0\<rparr> =
       ([Print (Processing (JStr '''')), Print No_ClobTokenIds], Inr \<lparr>stats = [], fetches = 0\<rparr>)"
  using unparseable_tokens_skipped[of
      "[(''id'', JStr ''m2''), (''question'', JStr ''Will B win?''),
        (''clobTokenIds'', JStr ''[]''), (''volume'', JInt 900)]" "''[]''" sample_env
      "\<lparr>stats = [], fetches = 0\<rparr>" "[market_c]"]
    unparseable_tokens_skipped[of "[(''clobTokenIds'', JStr ''not json'')]" "''not json''" sample_env
      "\<lparr>stats = [], fetches = 0\<rparr>" "[]"]
  by (simp add: sample_env_def serving_def sample_loads_def market_b_def)



text \<open>
  C7, as amended. The event resolver never raises. It returns the decoded body, printing
  nothing, exactly when the response has status 200 and its body decodes; in every other
  case (a transport failure, another status, or a status 200 whose body does not decode) it
  prints one line and returns \<^verbatim>\<open>None\<close>.
\<close>

theorem event_resolver_contract:
  "(\<exists>j. snd (get_event_data env s) = Inr j)
   \<and> (\<forall>j. gamma_api env (events_url s) = Response 200 (Some j) \<longrightarrow>
          get_event_data env s = ([Http_Get (events_url s) []], Inr j))
   \<and> ((\<forall>j. gamma_api env (events_url s) \<noteq> Response 200 (Some j)) \<longrightarrow>
          (\<exists>l. get_event_data env s = ([Http_Get (events_url s) [], Print l], Inr JNull)))"
  by (auto simp add: get_event_data_def emit_def ret_def split: http_result.splits option.splits)

text \<open>The resolver on a 404 and on a decodable 200.\<close>

theorem event_resolver_contract_witness:
  "gamma_api (serving (Response 404 None)) (events_url slug) = Response 404 None
   \<and> get_event_data (serving (Response 404 None)) slug =
        ([Http_Get (events_url slug) [], Print (Error_Fetching_Event 404)], Inr JNull)
   \<and> get_event_data (serving (Response 200 (Some (JInt 5)))) slug =
        ([Http_Get (events_url slug) []], Inr (JInt 5))"
  using event_resolver_contract[of "serving (Response 404 None)" slug]
    event_resolver_contract[of "serving (Response 200 (Some (JInt 5)))" slug]
  by (simp add: serving_def get_event_data_def emit_def ret_def)

text \<open>
  The claim as written fails on a response with status 200 whose body is not JSON:
  \<^verbatim>\<open>response.json()\<close> raises inside the \<^verbatim>\<open>try\<close>, and the resolver returns \<^verbatim>\<open>None\<close>.
\<close>

theorem undecodable_body_counterexample:
  "gamma_api (serving (Response 200 None)) (events_url slug) = Response 200 None
   \<and> get_event_data (serving (Response 200 None)) slug =
        ([Http_Get (events_url slug) [], Print (Exception_Fetching_Event JSONDecodeError)],
         Inr JNull)"
  by (simp add: serving_def get_event_data_def emit_def ret_def)

text \<open>
  C8, as amended. When the resolver's result is truthy and is an event object, or an array
  whose first element is one, and the event's \<^verbatim>\<open>markets\<close> value has a length, then
  \<^verbatim>\<open>event.json\<close> is written once, pretty-printed, before the first market is processed and
  whatever the markets do afterwards. \<^verbatim>\<open>summary.json\<close> is written if and only if the market
  loop ends without an uncaught exception; it then has as many entries as history files
  were written, so it holds the empty array when no market yields a history.
\<close>

theorem event_written_before_markets:
  assumes "snd (get_event_data env slug) = Inr events" "truthy events"
    and "events = JObj kvs \<or> (\<exists>rest. events = JArr (JObj kvs # rest))"
    and "py_get (JObj kvs) ''markets'' (JArr []) = Inr markets"
    and "py_len markets = Inr n" "py_iter markets = Inr ms"
  shows "fst (main env) =
           Print (Fetching_Event slug) # fst (get_event_data env slug)
           @ [Print (Found_Markets n), Makedirs ''public/data'',
              Dump ''public/data/event.json'' (Some 2) (JObj kvs)]
           @ fst (market_loop env ms \<lparr>stats = [], fetches = 0\<rparr>)
           @ (case snd (market_loop env ms \<lparr>stats = [], fetches = 0\<rparr>) of
                Inl e \<Rightarrow> []
              | Inr st \<Rightarrow> [Dump ''public/data/summary.json'' (Some 2) (JArr (stats st))])
     \<and> file_writes ''public/data/event.json'' (fst (main env)) = [(Some 2, JObj kvs)]
     \<and> (snd (main env) = Inr () \<longrightarrow>
          (\<exists>summary. file_writes ''public/data/summary.json'' (fst (main env)) =
                        [(Some 2, JArr summary)]
             \<and> length summary = length (dumps (fst (market_loop env ms \<lparr>stats = [], fetches = 0\<rparr>)))))
     \<and> (snd (main env) \<noteq> Inr () \<longrightarrow>
          file_writes ''public/data/summary.json'' (fst (main env)) = [])"
proof -
  let ?l = "market_loop env ms \<lparr>stats = [], fetches = 0\<rparr>"
  obtain ps j where g: "get_event_data env slug = (Http_Get (events_url slug) [] # ps, Inr j)"
    and ps: "list_all is_progress_line ps"
    using get_event_data_cases by blast
  have m: "main env =
    emit (Print (Fetching_Event slug) # fst (get_event_data env slug)) (main_event env (JObj kvs))"
    using assms(1-3) by (rule main_with_event)
  note sh = main_event_shape[OF assms(4-6), of env]
  have q: "file_writes p (fst (get_event_data env slug)) = []" for p
    using g ps by (simp add: quiet_file_writes)
  have trace: "fst (main env) =
           Print (Fetching_Event slug) # fst (get_event_data env slug)
           @ [Print (Found_Markets n), Makedirs ''public/data'',
              Dump ''public/data/event.json'' (Some 2) (JObj kvs)]
           @ fst ?l
           @ (case snd ?l of
                Inl e \<Rightarrow> []
              | Inr st \<Rightarrow> [Dump ''public/data/summary.json'' (Some 2) (JArr (stats st))])"
    using m sh(1) by simp
  have ev: "file_writes ''public/data/event.json'' (fst (main env)) = [(Some 2, JObj kvs)]"
    by (simp add: trace q market_loop_writes split: sum.splits)
  have res: "snd (main env) = (case snd ?l of Inl e \<Rightarrow> Inl e | Inr st \<Rightarrow> Inr ())"
    using m sh(2) by simp
  have ok: "\<exists>summary. file_writes ''public/data/summary.json'' (fst (main env)) =
                        [(Some 2, JArr summary)]
             \<and> length summary = length (dumps (fst ?l))"
    if "snd (main env) = Inr ()"
  proof -
    from that res obtain st where st: "snd ?l = Inr st" by (cases "snd ?l") auto
    from market_loop_lengths[OF st] have "length (stats st) = length (dumps (fst ?l))"
      by auto
    then show ?thesis by (simp add: trace q market_loop_writes st)
  qed
  have bad: "file_writes ''public/data/summary.json'' (fst (main env)) = []"
    if "snd (main env) \<noteq> Inr ()"
  proof -
    from that res obtain e where e: "snd ?l = Inl e" by (cases "snd ?l") auto
    then show ?thesis by (simp add: trace q market_loop_writes)
  qed
  from trace ev ok bad show ?thesis by blast
qed

text \<open>A run whose only market has no tokens: both files are written, the summary empty.\<close>

theorem event_written_before_markets_witness:
  "snd (get_event_data (serving (Response 200 (Some (event_of [market_b])))) slug)
     = Inr (event_of [market_b])
   \<and> truthy (event_of [market_b])
   \<and> snd (main (serving (Response 200 (Some (event_of [market_b]))))) = Inr ()
   \<and> file_writes ''public/data/event.json''
       (fst (main (serving (Response 200 (Some (event_of [market_b])))))) =
       [(Some 2, event_of [market_b])]
   \<and> file_writes ''public/data/summary.json''
       (fst (main (serving (Response 200 (Some (event_of [market_b])))))) = [(Some 2, JArr [])]"
  using event_written_before_markets[of "serving (Response 200 (Some (event_of [market_b])))"
      "event_of [market_b]" "[(''slug'', JStr slug), (''markets'', JArr [market_b])]"
      "JArr [market_b]" 1 "[market_b]"]
  by (simp add: run_defs)

text \<open>
  The claim as written fails on a resolved event with a market that has a history and no
  \<^verbatim>\<open>id\<close>: the run stops with a \<^verbatim>\<open>KeyError\<close> and \<^verbatim>\<open>summary.json\<close> is never written.
\<close>

theorem summary_missing_counterexample:
  "snd (get_event_data env_without_id slug) = Inr (event_of [market_without_id])
   \<and> truthy (event_of [market_without_id])
   \<and> snd (main env_without_id) = Inl KeyError
   \<and> file_writes ''public/data/summary.json'' (fst (main env_without_id)) = []"
  by (simp add: without_id_run)
     (simp add: env_without_id_def serving_def get_event_data_def emit_def ret_def event_of_def)

text \<open>
  C9, as amended. A market object with a token whose fetch returns a valid history payload,
  but without an \<^verbatim>\<open>id\<close>, stops the run with an uncaught \<^verbatim>\<open>KeyError\<close> at the line that
  builds the history filename: nothing is written for it and the loop does not go on. The
  anomalies the script guards against (a failed request, a status other than 200, a body
  that does not decode, a payload that is falsy or does not contain \<^verbatim>\<open>history\<close>) leave the
  market skipped and the loop running. Other malformed shapes are not guarded and halt the
  run as well.
\<close>

theorem missing_id_halts_the_run:
  assumes "yes_token env (JObj kvs) = Inr tok"
  shows "(map_of kvs ''id'' = None \<and> market_history env (fetches st) (JObj kvs) \<noteq> None \<longrightarrow>
            snd (process_market env (JObj kvs) st) = Inl KeyError
            \<and> dumps (fst (process_market env (JObj kvs) st)) = []
            \<and> snd (market_loop env (JObj kvs # rest) st) = Inl KeyError)
       \<and> (no_history_reply (clob_api env (fetches st)
              (history_params tok (start_ts_at env (fetches st)))) \<longrightarrow>
            snd (process_market env (JObj kvs) st) = Inr (st\<lparr>fetches := Suc (fetches st)\<rparr>)
            \<and> dumps (fst (process_market env (JObj kvs) st)) = []
            \<and> market_loop env (JObj kvs # rest) st =
                emit (fst (process_market env (JObj kvs) st))
                  (market_loop env rest (st\<lparr>fetches := Suc (fetches st)\<rparr>)))"
proof (intro conjI impI)
  assume a: "map_of kvs ''id'' = None \<and> market_history env (fetches st) (JObj kvs) \<noteq> None"
  then obtain pts where pts: "market_history env (fetches st) (JObj kvs) = Some pts" by auto
  from process_market_valid[OF assms pts] a
  have p: "process_market env (JObj kvs) st =
         ([Print (Processing (case map_of kvs ''question'' of None \<Rightarrow> JStr '''' | Some v \<Rightarrow> v)),
           Http_Get history_url (history_params tok (start_ts_at env (fetches st))),
           Print (Fetched_Points (length pts))], Inl KeyError)"
    by simp
  show "snd (process_market env (JObj kvs) st) = Inl KeyError" by (simp add: p)
  show "dumps (fst (process_market env (JObj kvs) st)) = []" by (simp add: p)
  show "snd (market_loop env (JObj kvs # rest) st) = Inl KeyError"
    by (simp add: market_loop_Cons_Inl[of env "JObj kvs" st KeyError] p)
next
  assume r: "no_history_reply (clob_api env (fetches st)
              (history_params tok (start_ts_at env (fetches st))))"
  note n = process_market_no_history[OF assms r]
  show "snd (process_market env (JObj kvs) st) = Inr (st\<lparr>fetches := Suc (fetches st)\<rparr>)"
    by (rule n(1))
  show "dumps (fst (process_market env (JObj kvs) st)) = []" by (rule n(2))
  show "market_loop env (JObj kvs # rest) st =
                emit (fst (process_market env (JObj kvs) st))
                  (market_loop env rest (st\<lparr>fetches := Suc (fetches st)\<rparr>))"
    by (simp add: market_loop_Cons_Inr[OF n(1)] emit_def)
qed

text \<open>The market without an \<^verbatim>\<open>id\<close>, with a valid payload and with a 503.\<close>

theorem missing_id_halts_the_run_witness:
  "yes_token env_without_id market_without_id = Inr (JStr ''t7'')
   \<and> py_item market_without_id ''id'' = Inl KeyError
   \<and> market_history env_without_id 0 market_without_id \<noteq> None
   \<and> snd (process_market env_without_id market_without_id \<lparr>stats = [], fetches = 0\<rparr>) = Inl KeyError
   \<and> snd (market_loop env_without_id [market_without_id, market_a] \<lparr>stats = [], fetches = 0\<rparr>)
       = Inl KeyError
   \<and> snd (main env_without_id) = Inl KeyError
   \<and> no_history_reply (Response 503 None)
   \<and> snd (process_market env_service_down market_without_id \<lparr>stats = [], fetches = 0\<rparr>)
       = Inr \<lparr>stats = [], fetches = 1\<rparr>"
  using missing_id_halts_the_run[of env_without_id
      "[(''question'', JStr ''Will D win?''), (''clobTokenIds'', JArr [JStr ''t7''])]"
      "JStr ''t7''" "\<lparr>stats = [], fetches = 0\<rparr>" "[market_a]"]
    missing_id_halts_the_run[of env_service_down
      "[(''question'', JStr ''Will D win?''), (''clobTokenIds'', JArr [JStr ''t7''])]"
      "JStr ''t7''" "\<lparr>stats = [], fetches = 0\<rparr>" "[]"]
  by (simp add: without_id_run)
     (simp add: yes_token_def normalise_tokens_def market_history_def history_points_def
        no_history_reply_def market_without_id_def env_without_id_def env_service_down_def
        serving_def sample_history_def)

text \<open>
  The claim as written says that every other remote-data anomaly is skipped. A market with
  an \<^verbatim>\<open>id\<close> whose \<^verbatim>\<open>clobTokenIds\<close> is the number 7 is not: \<^verbatim>\<open>clob_token_ids[0]\<close> raises a
  \<^verbatim>\<open>TypeError\<close> that nothing catches.
\<close>

theorem numeric_tokens_halt_counterexample:
  "py_item market_numeric_tokens ''id'' = Inr (JStr ''m9'')
   \<and> snd (main env_numeric_tokens) = Inl TypeError
   \<and> file_writes ''public/data/summary.json'' (fst (main env_numeric_tokens)) = []"
  by (simp add: numeric_tokens_run) (simp add: market_numeric_tokens_def)

text \<open>
  C10. No run prints \<^verbatim>\<open>Empty event list.\<close>: whenever the resolver's result is falsy
  (\<^verbatim>\<open>None\<close>, an empty array, an empty object, or any other falsy value), the test
  \<^verbatim>\<open>if not events\<close> ends the run with \<^verbatim>\<open>No events found.\<close> and a normal return, before the
  shape of the result is looked at.
\<close>

theorem empty_list_branch_unreachable:
  "Print Empty_Event_List \<notin> set (fst (main env))
   \<and> (\<forall>events. snd (get_event_data env slug) = Inr events \<longrightarrow> \<not> truthy events \<longrightarrow>
         main env = (Print (Fetching_Event slug) # fst (get_event_data env slug)
                       @ [Print No_Events_Found], Inr ()))"
proof -
  obtain ps events where g: "get_event_data env slug = (Http_Get (events_url slug) [] # ps, Inr events)"
    and ps: "list_all is_progress_line ps"
    using get_event_data_cases by blast
  have "Print Empty_Event_List \<notin> set (fst (main env))"
  proof (cases "truthy events")
    case False
    then show ?thesis using g ps main_no_event[of env events]
      by (auto dest: quiet_no_empty)
  next
    case True
    have *: "Print Empty_Event_List \<notin> set (fst (main_event env ev))" for ev
      by (rule main_event_no_empty)
    from True g ps show ?thesis
      by (cases events; cases "case events of JArr xs \<Rightarrow> xs | _ \<Rightarrow> []")
         (auto simp add: main_def bind_Inr * dest: quiet_no_empty)
  qed
  then show ?thesis using main_no_event by blast
qed

text \<open>The run on the empty object.\<close>

theorem empty_list_branch_unreachable_witness:
  "snd (get_event_data (serving (Response 200 (Some (JObj [])))) slug) = Inr (JObj [])
   \<and> \<not> truthy (JObj [])
   \<and> Print Empty_Event_List \<notin> set (fst (main (serving (Response 200 (Some (JObj []))))))
   \<and> main (serving (Response 200 (Some (JObj [])))) =
       ([Print (Fetching_Event slug), Http_Get (events_url slug) [], Print No_Events_Found],
        Inr ())"
  using empty_list_branch_unreachable[of "serving (Response 200 (Some (JObj [])))"]
  by (simp add: serving_def get_event_data_def emit_def ret_def)

end
